theory Spec2Isabelle
  imports Complex_Main
begin

section \<open>Values\<close>

text \<open>
  The script computes with numbers in one place only: the duration read from the style
  sheet. A number is \<open>NaN\<close>, an infinity, the negative zero, or a finite double, kept
  as the rational number it is (the positive zero is \<open>Finite 0\<close>).
\<close>

datatype jsnum = NaN | PosInfinity | NegInfinity | NegZero | Finite rat

datatype error = TypeError

text \<open>
  The functions handed to \<open>setTimeout\<close>, one constructor per closure of the script:
  the debounced show of \<open>handleMouseEnter\<close> (with the id and the button it captured), the
  debounced body of \<open>handleMouseLeave\<close>, the inner close-delay closure of that body, the
  closure of \<open>hideDropdowns\<close> that runs when the animation is over, the focus move of
  \<open>openMobileMenu\<close>, the focus move of the keyboard open path, and the debounced
  \<open>handleResize\<close>.
\<close>

datatype callback =
    DebouncedShow string nat
  | DebouncedLeave
  | CloseDelayElapsed
  | HideAnimationDone
  | FocusMobileNavClose
  | FocusFirstLink
  | DebouncedResize

record timer =
  timer_id :: nat
  timer_delay :: jsnum
  timer_callback :: callback

section \<open>The document\<close>

text \<open>
  The elements the script looks up. A trigger (\<open>[data-dropdown]\<close>) has its dropdown id,
  the class \<open>active\<close> and the attribute \<open>aria-expanded\<close> (\<open>None\<close> when the attribute is
  absent). A panel (\<open>.dropdown\<close>) has its element id, the class \<open>active\<close> and the
  \<open>tabindex\<close> attribute of each of its links, in document order. Elements of a list are
  referred to by their position.

  The markup is taken as the script expects it. The element \<open>getElementById\<close> finds
  for \<open>dropdown-\<close> followed by a dropdown id is, if there is one, the first panel with
  that element id, and the element an accordion trigger names in \<open>aria-controls\<close> is,
  if there is one, the first accordion content with that id. Triggers, panels, their
  links, accordion triggers and contents, the hamburger button, the close control, the
  dropdown area, the mobile panel and the backdrop are different elements. The focused
  element and the target of a click are one of these, the body, or some other element.
\<close>

record menuButton =
  data_dropdown :: string
  button_active :: bool
  button_expanded :: "string option"

record dropdown =
  dropdown_id :: string
  dropdown_active :: bool
  link_tabindex :: "string option list"

record accordionButton =
  accordion_expanded :: "string option"
  aria_controls :: "string option"

record accordionContent =
  content_id :: string
  content_active :: bool

record hamburger =
  hamburger_expanded :: "string option"

datatype element =
    Body
  | MenuButton nat
  | DropdownLink nat nat
  | HamburgerButton
  | MobileNavClose
  | AccordionButton nat
  | Backdrop
  | OtherElement

text \<open>
  The state: the module-level variables of the script under their own names, then the
  part of the browser it reads and writes. An element found by \<open>querySelector\<close> is
  \<open>None\<close> when the lookup returned null; for \<open>.dropdown-area\<close>, \<open>.menu-backdrop\<close> and
  \<open>.mobile-nav\<close> the value is whether the element has the class \<open>active\<close>. The menu
  wrapper and the close control have no state of their own, so only their presence is
  kept. Pending timers are kept in the order they were started.
\<close>

record state =
  TRANSITION_DURATION :: jsnum
  currentOpenDropdown :: "nat option"
  dropdownTimeout :: "nat option"
  debounceTimeout :: "nat option"
  lastFocusedElement :: "nat option"
  mobileMenuOpen :: bool
  menuWrapper :: bool
  dropdownArea :: "bool option"
  menuButtons :: "menuButton list"
  backdrop :: "bool option"
  hamburgerButton :: "hamburger option"
  mobileNav :: "bool option"
  mobileNavClose :: bool
  mobileAccordionButtons :: "accordionButton list"
  dropdowns :: "dropdown list"
  accordionContents :: "accordionContent list"
  innerWidth :: int
  bodyOverflow :: string
  activeElement :: element
  timers :: "timer list"
  nextTimerId :: nat

text \<open>
  A call either returns, leaving a state, or throws, leaving the state it had reached
  when the exception was raised.
\<close>

type_synonym outcome = "(error \<times> state) + state"

definition settle :: "outcome \<Rightarrow> state" where
  "settle r = (case r of Inl (e, s) \<Rightarrow> s | Inr s \<Rightarrow> s)"

definition throws :: "outcome \<Rightarrow> bool" where
  "throws r = (case r of Inl x \<Rightarrow> True | Inr s \<Rightarrow> False)"

section \<open>Configuration constants\<close>

definition CLOSE_DELAY :: jsnum where
  "CLOSE_DELAY = Finite 0"

definition DEBOUNCE_DELAY :: jsnum where
  "DEBOUNCE_DELAY = Finite 50"

definition MOBILE_BREAKPOINT :: int where
  "MOBILE_BREAKPOINT = 768"

definition DEFAULT_TRANSITION_DURATION :: jsnum where
  "DEFAULT_TRANSITION_DURATION = Finite 600"

section \<open>Timers\<close>

text \<open>
  \<open>setTimeout\<close> returns a handle never used before; the model hands out
  \<open>nextTimerId\<close>. \<open>clearTimeout\<close> of null, or of a handle that is no longer
  pending, does nothing.
\<close>

definition setTimeout :: "callback \<Rightarrow> jsnum \<Rightarrow> state \<Rightarrow> state" where
  "setTimeout f d s =
     s\<lparr>timers := timers s @ [\<lparr>timer_id = nextTimerId s, timer_delay = d, timer_callback = f\<rparr>],
       nextTimerId := Suc (nextTimerId s)\<rparr>"

definition clearTimeout :: "nat option \<Rightarrow> state \<Rightarrow> state" where
  "clearTimeout h s =
     (case h of
        None \<Rightarrow> s
      | Some n \<Rightarrow> s\<lparr>timers := filter (\<lambda>t. timer_id t \<noteq> n) (timers s)\<rparr>)"

definition isMobileMode :: "state \<Rightarrow> bool" where
  "isMobileMode s = (innerWidth s \<le> MOBILE_BREAKPOINT)"

text \<open>
  \<open>debounce(func, delay)\<close> returns a closure over the one module-level variable
  \<open>debounceTimeout\<close>; calling the closure is modelled here.
\<close>

definition debounce :: "callback \<Rightarrow> jsnum \<Rightarrow> state \<Rightarrow> state" where
  "debounce f d s =
     (let s1 = clearTimeout (debounceTimeout s) s
      in (setTimeout f d s1)\<lparr>debounceTimeout := Some (nextTimerId s1)\<rparr>)"

section \<open>Desktop dropdowns\<close>

fun firstIndex :: "('a \<Rightarrow> bool) \<Rightarrow> 'a list \<Rightarrow> nat option" where
  "firstIndex P [] = None"
| "firstIndex P (x # xs) = (if P x then Some 0 else map_option Suc (firstIndex P xs))"

definition getDropdownById :: "string \<Rightarrow> state \<Rightarrow> nat option" where
  "getDropdownById eid s = firstIndex (\<lambda>d. dropdown_id d = eid) (dropdowns s)"

definition collapseButton :: "menuButton \<Rightarrow> menuButton" where
  "collapseButton b = b\<lparr>button_active := False, button_expanded := Some ''false''\<rparr>"

definition expandButton :: "menuButton \<Rightarrow> menuButton" where
  "expandButton b = b\<lparr>button_active := True, button_expanded := Some ''true''\<rparr>"

definition setLinks :: "string \<Rightarrow> dropdown \<Rightarrow> dropdown" where
  "setLinks v d = d\<lparr>link_tabindex := map (\<lambda>t. Some v) (link_tabindex d)\<rparr>"

definition enableDropdownLinks :: "nat \<Rightarrow> state \<Rightarrow> state" where
  "enableDropdownLinks i s =
     s\<lparr>dropdowns := (dropdowns s)[i := setLinks ''0'' (dropdowns s ! i)]\<rparr>"

definition disableDropdownLinks :: "dropdown \<Rightarrow> dropdown" where
  "disableDropdownLinks d = setLinks ''-1'' d"

definition hideDropdowns :: "state \<Rightarrow> outcome" where
  "hideDropdowns s =
     (if isMobileMode s then Inr s
      else case dropdownArea s of
        None \<Rightarrow> Inl (TypeError, s)
      | Some a \<Rightarrow>
          let s1 = s\<lparr>dropdownArea := Some False\<rparr> in
          (case backdrop s1 of
             None \<Rightarrow> Inl (TypeError, s1)
           | Some b \<Rightarrow>
               let s2 = s1\<lparr>backdrop := Some False\<rparr>;
                   s3 = s2\<lparr>menuButtons := map collapseButton (menuButtons s2)\<rparr>
               in Inr ((setTimeout HideAnimationDone (TRANSITION_DURATION s3) s3)
                         \<lparr>dropdownTimeout := Some (nextTimerId s3)\<rparr>)))"

text \<open>The closure \<open>hideDropdowns\<close> schedules.\<close>

definition hideAnimationDone :: "state \<Rightarrow> state" where
  "hideAnimationDone s =
     s\<lparr>dropdowns := map (\<lambda>d. disableDropdownLinks (d\<lparr>dropdown_active := False\<rparr>)) (dropdowns s),
       currentOpenDropdown := None\<rparr>"

definition showDropdown :: "string \<Rightarrow> nat option \<Rightarrow> state \<Rightarrow> outcome" where
  "showDropdown dropdownId button s =
     (if isMobileMode s then Inr s
      else
        let s1 = clearTimeout (dropdownTimeout s) s in
        case getDropdownById (''dropdown-'' @ dropdownId) s1 of
          None \<Rightarrow> Inr s1
        | Some targetDropdown \<Rightarrow>
            if currentOpenDropdown s1 = Some targetDropdown \<and> button \<noteq> None
            then hideDropdowns s1
            else
              let s2 = s1\<lparr>dropdowns := map (\<lambda>d. d\<lparr>dropdown_active := False\<rparr>) (dropdowns s1)\<rparr>;
                  s3 = s2\<lparr>menuButtons := map collapseButton (menuButtons s2)\<rparr>;
                  s4 = s3\<lparr>dropdowns := (dropdowns s3)
                          [targetDropdown := (dropdowns s3 ! targetDropdown)\<lparr>dropdown_active := True\<rparr>]\<rparr>
              in (case dropdownArea s4 of
                    None \<Rightarrow> Inl (TypeError, s4)
                  | Some a \<Rightarrow>
                      let s5 = s4\<lparr>dropdownArea := Some True\<rparr> in
                      (case backdrop s5 of
                         None \<Rightarrow> Inl (TypeError, s5)
                       | Some b \<Rightarrow>
                           let s6 = s5\<lparr>backdrop := Some True, currentOpenDropdown := Some targetDropdown\<rparr>;
                               s7 = (case button of
                                       None \<Rightarrow> s6
                                     | Some i \<Rightarrow>
                                         s6\<lparr>menuButtons := (menuButtons s6)[i := expandButton (menuButtons s6 ! i)],
                                            lastFocusedElement := Some i\<rparr>)
                           in Inr (enableDropdownLinks targetDropdown s7))))"

section \<open>Mobile menu and accordion\<close>

definition focus :: "element \<Rightarrow> state \<Rightarrow> state" where
  "focus el s = s\<lparr>activeElement := el\<rparr>"

definition openMobileMenu :: "state \<Rightarrow> outcome" where
  "openMobileMenu s =
     (if \<not> isMobileMode s then Inr s
      else case mobileNav s of
        None \<Rightarrow> Inl (TypeError, s)
      | Some a \<Rightarrow>
          let s1 = s\<lparr>mobileNav := Some True\<rparr> in
          (case backdrop s1 of
             None \<Rightarrow> Inl (TypeError, s1)
           | Some b \<Rightarrow>
               let s2 = s1\<lparr>backdrop := Some True\<rparr> in
               (case hamburgerButton s2 of
                  None \<Rightarrow> Inl (TypeError, s2)
                | Some h \<Rightarrow>
                    let s3 = s2\<lparr>hamburgerButton := Some (h\<lparr>hamburger_expanded := Some ''true''\<rparr>),
                                mobileMenuOpen := True,
                                bodyOverflow := ''hidden''\<rparr>
                    in Inr (setTimeout FocusMobileNavClose (Finite 100) s3))))"

definition closeMobileMenu :: "state \<Rightarrow> outcome" where
  "closeMobileMenu s =
     (case mobileNav s of
        None \<Rightarrow> Inl (TypeError, s)
      | Some a \<Rightarrow>
          let s1 = s\<lparr>mobileNav := Some False\<rparr> in
          (case backdrop s1 of
             None \<Rightarrow> Inl (TypeError, s1)
           | Some b \<Rightarrow>
               let s2 = s1\<lparr>backdrop := Some False\<rparr> in
               (case hamburgerButton s2 of
                  None \<Rightarrow> Inl (TypeError, s2)
                | Some h \<Rightarrow>
                    Inr (focus HamburgerButton
                          (s2\<lparr>hamburgerButton := Some (h\<lparr>hamburger_expanded := Some ''false''\<rparr>),
                              mobileMenuOpen := False,
                              bodyOverflow := []\<rparr>)))))"

text \<open>
  \<open>getElementById\<close> of the id a trigger names in \<open>aria-controls\<close>. An absent attribute
  reads as null, which the lookup turns into the string \<open>null\<close>. No element is found
  for the empty string.
\<close>

definition getContentById :: "string option \<Rightarrow> state \<Rightarrow> nat option" where
  "getContentById targetId s =
     (case targetId of
        None \<Rightarrow> firstIndex (\<lambda>c. content_id c = ''null'') (accordionContents s)
      | Some i \<Rightarrow>
          if i = [] then None
          else firstIndex (\<lambda>c. content_id c = i) (accordionContents s))"

text \<open>
  The argument is the position of the trigger among the accordion triggers; a position
  past the end of the list is no element, and the call does not occur.
\<close>

definition toggleMobileAccordion :: "nat \<Rightarrow> state \<Rightarrow> state" where
  "toggleMobileAccordion button s =
     (if length (mobileAccordionButtons s) \<le> button then s
      else
        let b = mobileAccordionButtons s ! button;
            isExpanded = (accordion_expanded b = Some ''true'')
        in case getContentById (aria_controls b) s of
          None \<Rightarrow> s
        | Some targetContent \<Rightarrow>
            if isExpanded
            then s\<lparr>mobileAccordionButtons :=
                     (mobileAccordionButtons s)[button := b\<lparr>accordion_expanded := Some ''false''\<rparr>],
                   accordionContents :=
                     (accordionContents s)
                       [targetContent := (accordionContents s ! targetContent)\<lparr>content_active := False\<rparr>]\<rparr>
            else s\<lparr>mobileAccordionButtons :=
                     (mobileAccordionButtons s)[button := b\<lparr>accordion_expanded := Some ''true''\<rparr>],
                   accordionContents :=
                     (accordionContents s)
                       [targetContent := (accordionContents s ! targetContent)\<lparr>content_active := True\<rparr>]\<rparr>)"

section \<open>Keyboard\<close>

text \<open>
  \<open>handleKeyboardNavigation\<close> reads the key, the shift flag and
  \<open>document.activeElement\<close>. The calls of \<open>preventDefault\<close> only tell the browser to
  skip its own handling of the key and leave the state of the script alone; they are
  not modelled. \<open>dropdownLinks\<close> is \<open>querySelectorAll('a')\<close> on a panel.
\<close>

definition dropdownLinks :: "nat \<Rightarrow> state \<Rightarrow> string option list" where
  "dropdownLinks d s = (if d < length (dropdowns s) then link_tabindex (dropdowns s ! d) else [])"

definition focusLastFocusedElement :: "state \<Rightarrow> state" where
  "focusLastFocusedElement s =
     (case lastFocusedElement s of None \<Rightarrow> s | Some b \<Rightarrow> focus (MenuButton b) s)"

definition isActivationKey :: "string \<Rightarrow> bool" where
  "isActivationKey k = (k = ''Enter'' \<or> k = '' '')"

text \<open>The focused element, when it has the attribute \<open>data-dropdown\<close>.\<close>

definition focusedMenuButton :: "state \<Rightarrow> nat option" where
  "focusedMenuButton s =
     (case activeElement s of
        MenuButton i \<Rightarrow> if i < length (menuButtons s) then Some i else None
      | _ \<Rightarrow> None)"

text \<open>The focused element, when it has the class \<open>mobile-accordion-button\<close>.\<close>

definition focusedAccordionButton :: "state \<Rightarrow> nat option" where
  "focusedAccordionButton s =
     (case activeElement s of
        AccordionButton i \<Rightarrow> if i < length (mobileAccordionButtons s) then Some i else None
      | _ \<Rightarrow> None)"

text \<open>The last block of the handler: the accordion keys, in mobile mode.\<close>

definition keyboardMobileBlock :: "string \<Rightarrow> state \<Rightarrow> outcome" where
  "keyboardMobileBlock k s =
     (if isMobileMode s \<and> isActivationKey k
      then (case focusedAccordionButton s of
              None \<Rightarrow> Inr s
            | Some i \<Rightarrow> Inr (toggleMobileAccordion i s))
      else Inr s)"

text \<open>The Tab block: the boundaries of the open panel.\<close>

definition keyboardTabBlock :: "string \<Rightarrow> bool \<Rightarrow> state \<Rightarrow> outcome" where
  "keyboardTabBlock k shiftKey s =
     (case currentOpenDropdown s of
        None \<Rightarrow> Inr s
      | Some d \<Rightarrow>
          if k \<noteq> ''Tab'' then Inr s
          else
            let links = dropdownLinks d s in
            if shiftKey \<and> links \<noteq> [] \<and> activeElement s = DropdownLink d 0
            then Inr (focusLastFocusedElement s)
            else if \<not> shiftKey \<and> links \<noteq> [] \<and> activeElement s = DropdownLink d (length links - 1)
            then hideDropdowns s
            else Inr s)"

definition handleKeyboardNavigation :: "string \<Rightarrow> bool \<Rightarrow> state \<Rightarrow> outcome" where
  "handleKeyboardNavigation k shiftKey s =
     (if k = ''Escape'' \<and> mobileMenuOpen s then closeMobileMenu s
      else if k = ''Escape'' \<and> currentOpenDropdown s \<noteq> None
      then (case hideDropdowns s of
              Inl e \<Rightarrow> Inl e
            | Inr s1 \<Rightarrow> Inr (focusLastFocusedElement s1))
      else if \<not> isMobileMode s
      then (case (if isActivationKey k then focusedMenuButton s else None) of
              Some b \<Rightarrow>
                if button_expanded (menuButtons s ! b) = Some ''true''
                then hideDropdowns s
                else (case showDropdown (data_dropdown (menuButtons s ! b)) (Some b) s of
                        Inl e \<Rightarrow> Inl e
                      | Inr s1 \<Rightarrow> Inr (setTimeout FocusFirstLink (Finite 50) s1))
            | None \<Rightarrow>
                (case keyboardTabBlock k shiftKey s of
                   Inl e \<Rightarrow> Inl e
                 | Inr s1 \<Rightarrow> keyboardMobileBlock k s1))
      else keyboardMobileBlock k s)"

section \<open>Pointer and resize\<close>

text \<open>
  The argument of \<open>handleMouseEnter\<close> is what \<open>event.target.closest('[data-dropdown]')\<close>
  found: a trigger, or nothing.
\<close>

definition handleMouseEnter :: "nat option \<Rightarrow> state \<Rightarrow> state" where
  "handleMouseEnter closest s =
     (if isMobileMode s then s
      else case closest of
        None \<Rightarrow> s
      | Some button \<Rightarrow>
          if length (menuButtons s) \<le> button then s
          else debounce (DebouncedShow (data_dropdown (menuButtons s ! button)) button) DEBOUNCE_DELAY s)"

definition handleMouseLeave :: "state \<Rightarrow> state" where
  "handleMouseLeave s =
     (if isMobileMode s then s else debounce DebouncedLeave DEBOUNCE_DELAY s)"

definition handleResize :: "state \<Rightarrow> outcome" where
  "handleResize s =
     (if isMobileMode s
      then (if currentOpenDropdown s \<noteq> None then hideDropdowns s else Inr s)
      else (if mobileMenuOpen s then closeMobileMenu s else Inr s))"

section \<open>Reading the duration\<close>

text \<open>
  \<open>String.prototype.trim\<close>, \<open>endsWith\<close> and \<open>parseFloat\<close> on strings of bytes. White
  space is the ASCII white space. \<open>parseFloat\<close> reads the longest prefix that is a
  decimal literal: a sign, then \<open>Infinity\<close> or digits with an optional fraction and an
  optional exponent; without a literal the result is \<open>NaN\<close>. The value of the literal
  is rounded to the nearest double, ties to even, and so is the product with 1000.
\<close>

definition isWhiteSpace :: "char \<Rightarrow> bool" where
  "isWhiteSpace c = (c \<in> set [CHR 0x09, CHR 0x0A, CHR 0x0B, CHR 0x0C, CHR 0x0D, CHR '' ''])"

definition trim :: "string \<Rightarrow> string" where
  "trim str = rev (dropWhile isWhiteSpace (rev (dropWhile isWhiteSpace str)))"

fun startsWith :: "string \<Rightarrow> string \<Rightarrow> bool" where
  "startsWith str [] = True"
| "startsWith [] (c # cs) = False"
| "startsWith (x # xs) (c # cs) = (x = c \<and> startsWith xs cs)"

definition endsWith :: "string \<Rightarrow> string \<Rightarrow> bool" where
  "endsWith str sfx = startsWith (rev str) (rev sfx)"

definition isDigit :: "char \<Rightarrow> bool" where
  "isDigit c = (c \<in> set ''0123456789'')"

definition digitValue :: "char \<Rightarrow> nat" where
  "digitValue c = of_char c - 48"

definition decimalValue :: "string \<Rightarrow> nat" where
  "decimalValue ds = foldl (\<lambda>a c. 10 * a + digitValue c) 0 ds"

text \<open>A sign, if there is one, and the rest.\<close>

definition readSign :: "string \<Rightarrow> bool \<times> string" where
  "readSign str =
     (case str of
        [] \<Rightarrow> (False, str)
      | c # cs \<Rightarrow> if c = CHR ''-'' then (True, cs) else if c = CHR ''+'' then (False, cs) else (False, str))"

text \<open>The exponent part at the head of a string; 0 when there is none.\<close>

definition readExponent :: "string \<Rightarrow> int" where
  "readExponent str =
     (case str of
        [] \<Rightarrow> 0
      | c # cs \<Rightarrow>
          if c = CHR ''e'' \<or> c = CHR ''E''
          then (let (neg, r) = readSign cs; ds = takeWhile isDigit r
                in if ds = [] then 0
                   else if neg then - int (decimalValue ds) else int (decimalValue ds))
          else 0)"

definition scale10 :: "rat \<Rightarrow> int \<Rightarrow> rat" where
  "scale10 m e = (if 0 \<le> e then m * 10 ^ nat e else m / 10 ^ nat (- e))"

text \<open>The number of binary digits of a natural number.\<close>

fun bitLength :: "nat \<Rightarrow> nat" where
  "bitLength n = (if n = 0 then 0 else Suc (bitLength (n div 2)))"

declare bitLength.simps [simp del]

definition pow2 :: "int \<Rightarrow> rat" where
  "pow2 e = (if 0 \<le> e then 2 ^ nat e else 1 / 2 ^ nat (- e))"

text \<open>For a positive \<open>a\<close>, the exponent \<open>e\<close> with \<open>pow2 e \<le> a < pow2 (e + 1)\<close>.\<close>

definition binaryExponent :: "rat \<Rightarrow> int" where
  "binaryExponent a =
     (if 1 \<le> a then int (bitLength (nat \<lfloor>a\<rfloor>)) - 1
      else - int (bitLength (nat (- \<lfloor>- (1 / a)\<rfloor> - 1))))"

definition roundHalfEven :: "rat \<Rightarrow> int" where
  "roundHalfEven x =
     (let f = \<lfloor>x\<rfloor>; d = x - of_int f
      in if d < 1 / 2 then f
         else if 1 / 2 < d then f + 1
         else if even f then f else f + 1)"

text \<open>
  The double nearest to a rational number: 53 binary digits, the least exponent -1022
  (below it the spacing stays that of the subnormal numbers), and an infinity when the
  rounded value reaches \<open>pow2 1024\<close>, that is, binary exponent 1024.
\<close>

definition toDouble :: "rat \<Rightarrow> jsnum" where
  "toDouble x =
     (if x = 0 then Finite 0
      else
        let a = \<bar>x\<bar>;
            q = max (binaryExponent a) (- 1022) - 52;
            v = of_int (roundHalfEven (a / pow2 q)) * pow2 q
        in if v = 0 then (if x < 0 then NegZero else Finite 0)
           else if 1024 \<le> binaryExponent v then (if x < 0 then NegInfinity else PosInfinity)
           else Finite (if x < 0 then - v else v))"

definition negate :: "jsnum \<Rightarrow> jsnum" where
  "negate x =
     (case x of
        NaN \<Rightarrow> NaN
      | PosInfinity \<Rightarrow> NegInfinity
      | NegInfinity \<Rightarrow> PosInfinity
      | NegZero \<Rightarrow> Finite 0
      | Finite r \<Rightarrow> if r = 0 then NegZero else Finite (- r))"

definition parseFloat :: "string \<Rightarrow> jsnum" where
  "parseFloat str =
     (let (neg, u) = readSign (dropWhile isWhiteSpace str) in
      if startsWith u ''Infinity'' then (if neg then NegInfinity else PosInfinity)
      else
        let ip = takeWhile isDigit u;
            r1 = dropWhile isDigit u;
            point = (r1 \<noteq> [] \<and> hd r1 = CHR ''.'');
            fp = (if point then takeWhile isDigit (tl r1) else []);
            r2 = (if point then dropWhile isDigit (tl r1) else r1)
        in if ip = [] \<and> fp = [] then NaN
           else
             let m = of_nat (decimalValue ip) + of_nat (decimalValue fp) / 10 ^ length fp;
                 v = toDouble (scale10 m (readExponent r2))
             in if neg then negate v else v)"

text \<open>The product of a number and 1000.\<close>

definition times1000 :: "jsnum \<Rightarrow> jsnum" where
  "times1000 x = (case x of Finite r \<Rightarrow> toDouble (r * 1000) | _ \<Rightarrow> x)"

section \<open>Initialisation\<close>

text \<open>
  \<open>init\<close> takes what \<open>getPropertyValue('--transition-duration')\<close> returned (the empty
  string when the property is not set). It sets the duration and makes the links of
  every panel unreachable. The listeners it registers are the cases of \<open>dispatch\<close>
  below, each under the condition \<open>init\<close> registers it under.
\<close>

definition init :: "string \<Rightarrow> state \<Rightarrow> state" where
  "init propertyValue s =
     (let cssDuration = trim propertyValue;
          s1 = (if endsWith cssDuration ''s''
                then s\<lparr>TRANSITION_DURATION := times1000 (parseFloat cssDuration)\<rparr>
                else if endsWith cssDuration ''ms''
                then s\<lparr>TRANSITION_DURATION := parseFloat cssDuration\<rparr>
                else s)
      in s1\<lparr>dropdowns := map disableDropdownLinks (dropdowns s1)\<rparr>)"

section \<open>Events\<close>

text \<open>
  What the browser delivers. A pointer entering an element of the menu region comes with
  whether that element is the wrapper itself (the second, plain listener hears only
  that) and with the trigger \<open>closest\<close> finds. A click comes with its target and with
  whether the wrapper contains the target. A resize comes with the new width. A timer
  fires by its handle. The user may move the focus.
\<close>

datatype event =
    MouseEnter bool "nat option"
  | MouseLeave
  | KeyDown string bool
  | Click element bool
  | Resize int
  | TimerFires nat
  | FocusMoves element

text \<open>The listener of the element clicked, if \<open>init\<close> registered one.\<close>

definition clickListener :: "element \<Rightarrow> state \<Rightarrow> outcome" where
  "clickListener target s =
     (case target of
        MenuButton i \<Rightarrow>
          if length (menuButtons s) \<le> i \<or> isMobileMode s then Inr s
          else if button_expanded (menuButtons s ! i) = Some ''true''
          then hideDropdowns s
          else showDropdown (data_dropdown (menuButtons s ! i)) (Some i) s
      | HamburgerButton \<Rightarrow> if hamburgerButton s = None then Inr s else openMobileMenu s
      | MobileNavClose \<Rightarrow> if mobileNavClose s then closeMobileMenu s else Inr s
      | AccordionButton i \<Rightarrow> Inr (toggleMobileAccordion i s)
      | Backdrop \<Rightarrow>
          if backdrop s = None then Inr s
          else if mobileMenuOpen s then closeMobileMenu s
          else if currentOpenDropdown s \<noteq> None then hideDropdowns s
          else Inr s
      | _ \<Rightarrow> Inr s)"

text \<open>The click listener of the document, which hears every click.\<close>

definition documentClickListener :: "bool \<Rightarrow> state \<Rightarrow> outcome" where
  "documentClickListener inside s =
     (if isMobileMode s \<and> currentOpenDropdown s \<noteq> None
      then (if \<not> menuWrapper s then Inl (TypeError, s)
            else if \<not> inside then hideDropdowns s else Inr s)
      else Inr s)"

definition findTimer :: "nat \<Rightarrow> state \<Rightarrow> timer option" where
  "findTimer h s = find (\<lambda>t. timer_id t = h) (timers s)"

definition runCallback :: "callback \<Rightarrow> state \<Rightarrow> outcome" where
  "runCallback f s =
     (case f of
        DebouncedShow dropdownId button \<Rightarrow> showDropdown dropdownId (Some button) s
      | DebouncedLeave \<Rightarrow>
          Inr ((setTimeout CloseDelayElapsed CLOSE_DELAY s)\<lparr>dropdownTimeout := Some (nextTimerId s)\<rparr>)
      | CloseDelayElapsed \<Rightarrow> hideDropdowns s
      | HideAnimationDone \<Rightarrow> Inr (hideAnimationDone s)
      | FocusMobileNavClose \<Rightarrow>
          if mobileNavClose s then Inr (focus MobileNavClose s) else Inl (TypeError, s)
      | FocusFirstLink \<Rightarrow>
          (case currentOpenDropdown s of
             None \<Rightarrow> Inr s
           | Some d \<Rightarrow> if dropdownLinks d s = [] then Inr s else Inr (focus (DropdownLink d 0) s))
      | DebouncedResize \<Rightarrow> handleResize s)"

text \<open>
  One event, all its listeners. An exception ends the listener that raised it and
  nothing else: the page goes on from the state reached.
\<close>

definition dispatch :: "event \<Rightarrow> state \<Rightarrow> state" where
  "dispatch ev s =
     (case ev of
        MouseEnter onWrapper closest \<Rightarrow>
          if menuWrapper s \<and> dropdownArea s \<noteq> None
          then (let s1 = handleMouseEnter closest s
                in if onWrapper then clearTimeout (dropdownTimeout s1) s1 else s1)
          else s
      | MouseLeave \<Rightarrow>
          if menuWrapper s \<and> dropdownArea s \<noteq> None then handleMouseLeave s else s
      | KeyDown k shiftKey \<Rightarrow> settle (handleKeyboardNavigation k shiftKey s)
      | Click target inside \<Rightarrow>
          settle (documentClickListener inside (settle (clickListener target s)))
      | Resize w \<Rightarrow> debounce DebouncedResize (Finite 200) (s\<lparr>innerWidth := w\<rparr>)
      | TimerFires h \<Rightarrow>
          (case findTimer h s of
             None \<Rightarrow> s
           | Some t \<Rightarrow>
               settle (runCallback (timer_callback t)
                         (s\<lparr>timers := filter (\<lambda>u. timer_id u \<noteq> h) (timers s)\<rparr>)))
      | FocusMoves el \<Rightarrow> focus el s)"

fun run :: "event list \<Rightarrow> state \<Rightarrow> state" where
  "run [] s = s"
| "run (ev # evs) s = run evs (dispatch ev s)"

section \<open>A page\<close>

text \<open>
  A page with all its elements, as the script finds it when it is loaded at a desktop
  width: two triggers with their panels, two accordion sections, nothing open.
\<close>

definition demoPage :: state where
  "demoPage =
     \<lparr>TRANSITION_DURATION = DEFAULT_TRANSITION_DURATION,
      currentOpenDropdown = None,
      dropdownTimeout = None,
      debounceTimeout = None,
      lastFocusedElement = None,
      mobileMenuOpen = False,
      menuWrapper = True,
      dropdownArea = Some False,
      menuButtons =
        [\<lparr>data_dropdown = ''products'', button_active = False, button_expanded = Some ''false''\<rparr>,
         \<lparr>data_dropdown = ''company'', button_active = False, button_expanded = Some ''false''\<rparr>],
      backdrop = Some False,
      hamburgerButton = Some \<lparr>hamburger_expanded = Some ''false''\<rparr>,
      mobileNav = Some False,
      mobileNavClose = True,
      mobileAccordionButtons =
        [\<lparr>accordion_expanded = Some ''false'', aria_controls = Some ''mobile-products''\<rparr>,
         \<lparr>accordion_expanded = Some ''false'', aria_controls = Some ''mobile-company''\<rparr>],
      dropdowns =
        [\<lparr>dropdown_id = ''dropdown-products'', dropdown_active = False, link_tabindex = [None, None]\<rparr>,
         \<lparr>dropdown_id = ''dropdown-company'', dropdown_active = False, link_tabindex = [None]\<rparr>],
      accordionContents =
        [\<lparr>content_id = ''mobile-products'', content_active = False\<rparr>,
         \<lparr>content_id = ''mobile-company'', content_active = False\<rparr>],
      innerWidth = 1200,
      bodyOverflow = [],
      activeElement = Body,
      timers = [],
      nextTimerId = 1\<rparr>"

text \<open>The same page once \<open>init\<close> has run, with no duration set in the style sheet.\<close>

definition loadedPage :: state where
  "loadedPage = init [] demoPage"

section \<open>Notions the properties use\<close>

text \<open>The panels that have the class \<open>active\<close>, by position.\<close>

definition activeDropdowns :: "state \<Rightarrow> nat list" where
  "activeDropdowns s = filter (\<lambda>i. dropdown_active (dropdowns s ! i)) [0..<length (dropdowns s)]"

text \<open>At most one panel is active, and an active panel is the one recorded as open.\<close>

definition singleActive :: "state \<Rightarrow> bool" where
  "singleActive s =
     (length (activeDropdowns s) \<le> 1
      \<and> list_all (\<lambda>i. currentOpenDropdown s = Some i) (activeDropdowns s))"

text \<open>
  A sequence of show requests, each an id and a trigger, run one after the other for as
  long as they complete.
\<close>

fun showRequests :: "(string \<times> nat option) list \<Rightarrow> state \<Rightarrow> outcome" where
  "showRequests [] s = Inr s"
| "showRequests (r # rs) s =
     (case showDropdown (fst r) (snd r) s of
        Inl e \<Rightarrow> Inl e
      | Inr s1 \<Rightarrow> showRequests rs s1)"

text \<open>The state after two show requests with the same id and trigger.\<close>

definition showTwice :: "string \<Rightarrow> nat \<Rightarrow> state \<Rightarrow> state" where
  "showTwice dropdownId b s =
     settle (showDropdown dropdownId (Some b) (settle (showDropdown dropdownId (Some b) s)))"

text \<open>Every pending timer has a handle \<open>setTimeout\<close> has already handed out.\<close>

definition timersFresh :: "state \<Rightarrow> bool" where
  "timersFresh s = list_all (\<lambda>t. timer_id t < nextTimerId s) (timers s)"

text \<open>The state Closed of the dropdown machine: no panel recorded as open, none active.\<close>

definition isClosed :: "state \<Rightarrow> bool" where
  "isClosed s = (currentOpenDropdown s = None \<and> activeDropdowns s = [])"

definition collapsed :: "menuButton \<Rightarrow> bool" where
  "collapsed b = (\<not> button_active b \<and> button_expanded b = Some ''false'')"

text \<open>The timer a hide request starts in state \<open>s\<close>.\<close>

definition hideTimer :: "state \<Rightarrow> timer" where
  "hideTimer s =
     \<lparr>timer_id = nextTimerId s, timer_delay = TRANSITION_DURATION s, timer_callback = HideAnimationDone\<rparr>"

text \<open>
  The events that may close the mobile panel: a click on the close control or on the
  backdrop, the Escape key, and the debounced resize handler running at a desktop
  width.
\<close>

definition closesMobileMenu :: "state \<Rightarrow> event \<Rightarrow> bool" where
  "closesMobileMenu s ev =
     (case ev of
        Click target inside \<Rightarrow> target = MobileNavClose \<or> target = Backdrop
      | KeyDown k shiftKey \<Rightarrow> k = ''Escape''
      | TimerFires h \<Rightarrow>
          (case findTimer h s of
             None \<Rightarrow> False
           | Some t \<Rightarrow> timer_callback t = DebouncedResize \<and> \<not> isMobileMode s)
      | _ \<Rightarrow> False)"

text \<open>
  Timers by the handle variable that governs them. The timers started through
  \<open>debounce\<close> are recorded in \<open>debounceTimeout\<close>: the hover ones and the resize
  one alike. The timers of a closing dropdown, the close delay and the end of the
  animation, are recorded in \<open>dropdownTimeout\<close>.
\<close>

definition isDebounceCallback :: "callback \<Rightarrow> bool" where
  "isDebounceCallback f =
     (case f of
        DebouncedShow i b \<Rightarrow> True
      | DebouncedLeave \<Rightarrow> True
      | DebouncedResize \<Rightarrow> True
      | _ \<Rightarrow> False)"

definition isCloseCallback :: "callback \<Rightarrow> bool" where
  "isCloseCallback f = (f = CloseDelayElapsed \<or> f = HideAnimationDone)"

definition debounceTimers :: "state \<Rightarrow> timer list" where
  "debounceTimers s = filter (\<lambda>t. isDebounceCallback (timer_callback t)) (timers s)"

definition closeTimers :: "state \<Rightarrow> timer list" where
  "closeTimers s = filter (\<lambda>t. isCloseCallback (timer_callback t)) (timers s)"

text \<open>
  The timer state is well formed: pending handles are distinct and were issued; the
  handle variables hold issued handles; a pending timer is a debounce timer exactly
  when \<open>debounceTimeout\<close> holds its handle; and a pending timer whose handle
  \<open>dropdownTimeout\<close> holds is a close timer. A page just loaded, with no timer pending
  and both variables null, is in such a state.
\<close>

definition handleIssued :: "nat \<Rightarrow> nat option \<Rightarrow> bool" where
  "handleIssued n h = (case h of None \<Rightarrow> True | Some k \<Rightarrow> k < n)"

definition tinv :: "timer list \<Rightarrow> nat \<Rightarrow> nat option \<Rightarrow> nat option \<Rightarrow> bool" where
  "tinv ts n db dd =
     (list_all (\<lambda>t. timer_id t < n) ts
      \<and> distinct (map timer_id ts)
      \<and> handleIssued n db
      \<and> handleIssued n dd
      \<and> list_all (\<lambda>t. isDebounceCallback (timer_callback t) = (db = Some (timer_id t))) ts
      \<and> list_all (\<lambda>t. dd = Some (timer_id t) \<longrightarrow> isCloseCallback (timer_callback t)) ts)"

definition timerInv :: "state \<Rightarrow> bool" where
  "timerInv s = tinv (timers s) (nextTimerId s) (debounceTimeout s) (dropdownTimeout s)"

text \<open>The part of the state the timer invariant reads.\<close>

definition timerView :: "state \<Rightarrow> timer list \<times> nat \<times> nat option \<times> nat option" where
  "timerView s = (timers s, nextTimerId s, debounceTimeout s, dropdownTimeout s)"

section \<open>Basic facts\<close>

lemma firstIndex_Some: "firstIndex P xs = Some i \<Longrightarrow> i < length xs \<and> P (xs ! i)"
proof (induction xs arbitrary: i)
  case Nil
  then show ?case by simp
next
  case (Cons x xs)
  then show ?case by (cases "P x") auto
qed

lemma set_activeDropdowns:
  "set (activeDropdowns s) = {i. i < length (dropdowns s) \<and> dropdown_active (dropdowns s ! i)}"
  by (auto simp: activeDropdowns_def)

lemma distinct_activeDropdowns: "distinct (activeDropdowns s)"
  by (simp add: activeDropdowns_def)

lemma singleActive_iff:
  "singleActive s \<longleftrightarrow>
     (\<forall>i < length (dropdowns s). dropdown_active (dropdowns s ! i) \<longrightarrow> currentOpenDropdown s = Some i)"
proof
  assume "singleActive s"
  then show "\<forall>i < length (dropdowns s). dropdown_active (dropdowns s ! i) \<longrightarrow> currentOpenDropdown s = Some i"
    by (auto simp: singleActive_def list_all_iff set_activeDropdowns)
next
  assume a: "\<forall>i < length (dropdowns s). dropdown_active (dropdowns s ! i) \<longrightarrow> currentOpenDropdown s = Some i"
  then have all: "\<forall>i \<in> set (activeDropdowns s). currentOpenDropdown s = Some i"
    by (auto simp: set_activeDropdowns)
  have "card (set (activeDropdowns s)) \<le> 1"
  proof (rule card_le_Suc0_iff_eq[THEN iffD2, unfolded One_nat_def[symmetric]])
    show "finite (set (activeDropdowns s))" by simp
    show "\<forall>a\<in>set (activeDropdowns s). \<forall>b\<in>set (activeDropdowns s). a = b"
      using all by (metis option.inject)
  qed
  then have "length (activeDropdowns s) \<le> 1"
    using distinct_card[OF distinct_activeDropdowns, of s] by simp
  then show "singleActive s"
    using all by (simp add: singleActive_def list_all_iff)
qed

lemma hideDropdowns_dropdowns:
  "hideDropdowns s = Inr s' \<Longrightarrow>
     dropdowns s' = dropdowns s \<and> currentOpenDropdown s' = currentOpenDropdown s"
  by (auto simp: hideDropdowns_def setTimeout_def Let_def split: if_splits option.splits)

section \<open>Resize to mobile width\<close>

lemma handleResize_mobile: "isMobileMode s \<Longrightarrow> handleResize s = Inr s"
  by (simp add: handleResize_def hideDropdowns_def)

text \<open>
  C1. The claim: when the debounced resize handler settles at mobile width with a
  dropdown open, the dropdown is closed and the open-dropdown reference cleared, so the
  dropdown and the mobile panel are never both active. The code: \<open>handleResize\<close> calls
  \<open>hideDropdowns\<close>, which returns at once at mobile width. On the page above, a click
  opens the first panel, the window is resized to 500 and the resize timer fires: the
  panel is still active and still recorded as open, no close is pending, and a click on
  the hamburger button then opens the mobile panel beside it.
\<close>

theorem resize_to_mobile_keeps_dropdown_open:
  "currentOpenDropdown (run [Click (MenuButton 0) True, Resize 500, TimerFires 1] loadedPage) = Some 0
   \<and> map dropdown_active (dropdowns (run [Click (MenuButton 0) True, Resize 500, TimerFires 1] loadedPage))
       = [True, False]
   \<and> timers (run [Click (MenuButton 0) True, Resize 500, TimerFires 1] loadedPage) = []
   \<and> isMobileMode (run [Click (MenuButton 0) True, Resize 500, TimerFires 1] loadedPage)
   \<and> mobileMenuOpen
       (run [Click (MenuButton 0) True, Resize 500, TimerFires 1, Click HamburgerButton False] loadedPage)
   \<and> currentOpenDropdown
       (run [Click (MenuButton 0) True, Resize 500, TimerFires 1, Click HamburgerButton False] loadedPage)
       = Some 0"
  by code_simp

section \<open>Absent elements\<close>

text \<open>
  C2. The claim: an operation whose collaborator element is absent is a silent no-op,
  and nothing throws. The code: \<open>showDropdown\<close> dereferences the backdrop, and
  \<open>openMobileMenu\<close> the mobile panel, without the check \<open>init\<close> makes before it
  registers the listeners. On the page above without its backdrop, the show request
  throws, and the click that made it leaves the panel active with no dropdown recorded
  as open; without its mobile panel, at width 500, the open request throws.
\<close>

theorem show_throws_without_backdrop:
  "throws (showDropdown ''products'' (Some 0) (loadedPage\<lparr>backdrop := None\<rparr>))
   \<and> map dropdown_active (dropdowns (dispatch (Click (MenuButton 0) True) (loadedPage\<lparr>backdrop := None\<rparr>)))
       = [True, False]
   \<and> currentOpenDropdown (dispatch (Click (MenuButton 0) True) (loadedPage\<lparr>backdrop := None\<rparr>)) = None
   \<and> throws (openMobileMenu (loadedPage\<lparr>innerWidth := 500, mobileNav := None\<rparr>))"
  by code_simp

section \<open>The duration\<close>

text \<open>The floor of a fraction of numerals, for the evaluation of \<open>toDouble\<close>.\<close>

lemma floor_rat_numeral_div: "\<lfloor>numeral a / numeral b :: rat\<rfloor> = numeral a div numeral b"
  by (metis floor_divide_of_int_eq of_int_numeral)

lemma floor_rat_minus_numeral_div:
  "\<lfloor>- (numeral a / numeral b) :: rat\<rfloor> = - numeral a div numeral b"
  by (metis divide_minus_left floor_divide_of_int_eq of_int_neg_numeral of_int_numeral)

lemma floor_rat_one_div: "\<lfloor>1 / numeral b :: rat\<rfloor> = 1 div numeral b"
  by (metis floor_divide_of_int_eq of_int_1 of_int_numeral)

lemma floor_rat_minus_one_div: "\<lfloor>- (1 / numeral b) :: rat\<rfloor> = - 1 div numeral b"
  by (metis (mono_tags, opaque_lifting) div_minus_right minus_divide_right
      floor_divide_of_int_eq of_int_neg_numeral of_int_1)

lemmas toDouble_eval = binaryExponent_def bitLength.simps pow2_def roundHalfEven_def Let_def
  floor_rat_numeral_div floor_rat_minus_numeral_div floor_rat_one_div floor_rat_minus_one_div

text \<open>600 and 600000 are doubles; 0.6 is not, and the double next to it times 1000 is 600.\<close>

lemma toDouble_600: "toDouble 600 = Finite 600"
  unfolding toDouble_def Let_def by (simp add: toDouble_eval)

lemma toDouble_600000: "toDouble (600 * 1000) = Finite 600000"
  unfolding toDouble_def Let_def by (simp add: toDouble_eval)

lemma toDouble_three_fifths: "toDouble (3 / 5) = Finite (5404319552844595 / 9007199254740992)"
  unfolding toDouble_def Let_def by (simp add: toDouble_eval)

lemma toDouble_three_fifths_times_1000:
  "toDouble (5404319552844595 / 9007199254740992 * 1000) = Finite 600"
  unfolding toDouble_def Let_def by (simp add: toDouble_eval)

text \<open>
  Where the exact value and the double differ: 2.01 seconds are 2009.9999999999998 ms,
  and a literal beyond the range of the doubles is an infinity.
\<close>

lemma toDouble_2010: "toDouble (201 / 100) = Finite (1131529406376837 / 562949953421312)"
  "toDouble (1131529406376837 / 562949953421312 * 1000) = Finite (8840073487319039 / 4398046511104)"
  unfolding toDouble_def Let_def by (simp_all add: toDouble_eval)

lemma endsWith_ms_endsWith_s: "endsWith str ''ms'' \<Longrightarrow> endsWith str ''s''"
  by (cases "rev str") (simp_all add: endsWith_def)

text \<open>
  C3. The claim: \<open>0.6s\<close> gives 600 ms, \<open>600ms\<close> gives 600 ms, and an absent or
  unparsable string leaves the default. The code tests the suffix \<open>s\<close> first, and a
  string that ends in \<open>ms\<close> ends in \<open>s\<close>: \<open>600ms\<close> is read as 600 seconds, and the
  branch for \<open>ms\<close> is never taken, whatever the string. A string that ends in \<open>s\<close>
  and holds no number gives \<open>NaN\<close>. The seconds form, the empty string and a string
  with another ending behave as claimed.
\<close>

theorem init_reads_ms_suffix_as_seconds:
  "TRANSITION_DURATION (init ''600ms'' s) = Finite 600000
   \<and> TRANSITION_DURATION (init ''six seconds'' s) = NaN
   \<and> TRANSITION_DURATION (init ''0.6s'' s) = Finite 600
   \<and> TRANSITION_DURATION (init [] s) = TRANSITION_DURATION s
   \<and> TRANSITION_DURATION (init ''0.6 sec'' s) = TRANSITION_DURATION s
   \<and> TRANSITION_DURATION (init v s)
       = (if endsWith (trim v) ''s'' then times1000 (parseFloat (trim v)) else TRANSITION_DURATION s)"
proof -
  have general: "TRANSITION_DURATION (init u s)
       = (if endsWith (trim u) ''s'' then times1000 (parseFloat (trim u)) else TRANSITION_DURATION s)"
    for u
    using endsWith_ms_endsWith_s[of "trim u"] by (auto simp: init_def Let_def)
  have ends: "endsWith (trim ''600ms'') ''s''" "endsWith (trim ''six seconds'') ''s''"
    "endsWith (trim ''0.6s'') ''s''" "\<not> endsWith (trim []) ''s''"
    "\<not> endsWith (trim ''0.6 sec'') ''s''"
    by (simp_all add: endsWith_def trim_def isWhiteSpace_def)
  have parsed: "parseFloat (trim ''600ms'') = toDouble 600"
    "parseFloat (trim ''six seconds'') = NaN"
    "parseFloat (trim ''0.6s'') = toDouble (3 / 5)"
    by (simp_all add: trim_def isWhiteSpace_def parseFloat_def readSign_def isDigit_def
        decimalValue_def digitValue_def readExponent_def scale10_def)
  have vals: "times1000 (parseFloat (trim ''600ms'')) = Finite 600000"
    "times1000 (parseFloat (trim ''six seconds'')) = NaN"
    "times1000 (parseFloat (trim ''0.6s'')) = Finite 600"
    by (simp_all only: parsed toDouble_600 toDouble_600000 toDouble_three_fifths
        toDouble_three_fifths_times_1000 times1000_def jsnum.case)
  have concrete: "TRANSITION_DURATION (init ''600ms'' s) = Finite 600000"
    "TRANSITION_DURATION (init ''six seconds'' s) = NaN"
    "TRANSITION_DURATION (init ''0.6s'' s) = Finite 600"
    "TRANSITION_DURATION (init [] s) = TRANSITION_DURATION s"
    "TRANSITION_DURATION (init ''0.6 sec'' s) = TRANSITION_DURATION s"
    by (simp_all only: general ends vals if_True if_False)
  from concrete general[of v] show ?thesis by blast
qed

section \<open>One active panel\<close>

lemma showDropdown_singleActive:
  assumes "singleActive s" and "showDropdown dropdownId button s = Inr s'"
  shows "singleActive s'"
proof (cases "isMobileMode s")
  case True
  with assms show ?thesis by (simp add: showDropdown_def)
next
  case desktop: False
  let ?s1 = "clearTimeout (dropdownTimeout s) s"
  have s1: "dropdowns ?s1 = dropdowns s" "currentOpenDropdown ?s1 = currentOpenDropdown s"
    by (simp_all add: clearTimeout_def split: option.splits)
  show ?thesis
  proof (cases "getDropdownById (''dropdown-'' @ dropdownId) ?s1")
    case None
    with desktop assms(2) have "s' = ?s1" by (simp add: showDropdown_def Let_def)
    with assms(1) s1 show ?thesis by (simp add: singleActive_iff)
  next
    case (Some t)
    then have t: "t < length (dropdowns s)"
      using firstIndex_Some[of _ "dropdowns ?s1" t] s1 by (simp add: getDropdownById_def)
    show ?thesis
    proof (cases "currentOpenDropdown ?s1 = Some t \<and> button \<noteq> None")
      case True
      with desktop Some assms(2) have "hideDropdowns ?s1 = Inr s'"
        by (simp add: showDropdown_def Let_def)
      from hideDropdowns_dropdowns[OF this] assms(1) s1 show ?thesis
        by (simp add: singleActive_iff)
    next
      case False
      with desktop Some assms(2) t have
        "currentOpenDropdown s' = Some t \<and>
         (\<forall>i < length (dropdowns s'). dropdown_active (dropdowns s' ! i) \<longrightarrow> i = t)"
        by (auto simp: showDropdown_def Let_def enableDropdownLinks_def setLinks_def
            clearTimeout_def nth_list_update split: option.splits if_splits)
      then show ?thesis by (auto simp: singleActive_iff)
    qed
  qed
qed

text \<open>
  C5. For every sequence of show requests, from a state in which at most one panel is
  active and that panel is the one recorded as open (a page with no panel active is
  one): after the requests have completed, at most one panel is active, and it is the
  one recorded as open. The sequence is arbitrary, so this holds after each request.
\<close>

theorem show_requests_single_active:
  "singleActive s \<Longrightarrow> showRequests rs s = Inr s' \<Longrightarrow> singleActive s'"
proof (induction rs arbitrary: s)
  case Nil
  then show ?case by simp
next
  case (Cons r rs)
  then show ?case
    by (auto split: sum.splits dest: showDropdown_singleActive)
qed

theorem show_requests_single_active_witness:
  "singleActive loadedPage
   \<and> showRequests [(''products'', Some 0), (''company'', Some 1)] loadedPage
       = Inr (settle (showRequests [(''products'', Some 0), (''company'', Some 1)] loadedPage))
   \<and> activeDropdowns (settle (showRequests [(''products'', Some 0), (''company'', Some 1)] loadedPage)) = [1]
   \<and> singleActive (settle (showRequests [(''products'', Some 0), (''company'', Some 1)] loadedPage))"
proof -
  have a: "singleActive loadedPage" by code_simp
  have b: "showRequests [(''products'', Some 0), (''company'', Some 1)] loadedPage
       = Inr (settle (showRequests [(''products'', Some 0), (''company'', Some 1)] loadedPage))"
    by code_simp
  have c: "activeDropdowns (settle (showRequests [(''products'', Some 0), (''company'', Some 1)] loadedPage)) = [1]"
    by code_simp
  from show_requests_single_active[OF a b] a b c show ?thesis by simp
qed

section \<open>Hide requests\<close>

lemma find_fresh:
  "\<forall>t \<in> set xs. timer_id t < k \<Longrightarrow> timer_id n = k \<Longrightarrow> find (\<lambda>t. timer_id t = k) (xs @ [n]) = Some n"
  by (induction xs) auto

lemma filter_fresh:
  "\<forall>t \<in> set xs. timer_id t < k \<Longrightarrow> timer_id n = k \<Longrightarrow> filter (\<lambda>t. timer_id t \<noteq> k) (xs @ [n]) = xs"
  by (induction xs) auto

lemma hideDropdowns_desktop:
  assumes "\<not> isMobileMode s" and "dropdownArea s \<noteq> None" and "backdrop s \<noteq> None"
  shows "hideDropdowns s =
     Inr (s\<lparr>dropdownArea := Some False, backdrop := Some False,
            menuButtons := map collapseButton (menuButtons s),
            timers := timers s @ [hideTimer s],
            nextTimerId := Suc (nextTimerId s),
            dropdownTimeout := Some (nextTimerId s)\<rparr>)"
  using assms by (auto simp: hideDropdowns_def setTimeout_def hideTimer_def Let_def)

lemma list_all_collapseButton: "list_all collapsed (map collapseButton bs)"
  by (simp add: list_all_iff collapsed_def collapseButton_def)

lemma activeDropdowns_empty_iff:
  "activeDropdowns s = [] \<longleftrightarrow> (\<forall>i < length (dropdowns s). \<not> dropdown_active (dropdowns s ! i))"
  by (auto simp: activeDropdowns_def filter_empty_conv)

lemma hideAnimationDone_closed:
  "activeDropdowns (hideAnimationDone s) = []
   \<and> list_all (\<lambda>p. list_all (\<lambda>t. t = Some ''-1'') (link_tabindex p)) (dropdowns (hideAnimationDone s))
   \<and> currentOpenDropdown (hideAnimationDone s) = None"
  by (simp add: activeDropdowns_empty_iff hideAnimationDone_def disableDropdownLinks_def
      setLinks_def list_all_iff)

lemma fire_hide_timer:
  assumes "timersFresh s" and "timers s1 = timers s @ [hideTimer s]"
  shows "dispatch (TimerFires (nextTimerId s)) s1 = hideAnimationDone (s1\<lparr>timers := timers s\<rparr>)"
proof -
  have old: "\<forall>t \<in> set (timers s). timer_id t < nextTimerId s"
    using assms(1) by (simp add: timersFresh_def list_all_iff)
  have id: "timer_id (hideTimer s) = nextTimerId s" by (simp add: hideTimer_def)
  have cb: "timer_callback (hideTimer s) = HideAnimationDone" by (simp add: hideTimer_def)
  have keep: "filter (\<lambda>u. timer_id u \<noteq> nextTimerId s) (timers s) = timers s"
    using old by (auto simp: filter_id_conv)
  have found: "findTimer (nextTimerId s) s1 = Some (hideTimer s)"
    by (simp only: findTimer_def assms(2) find_fresh[OF old id])
  show ?thesis
    by (simp add: dispatch_def found assms(2) keep id runCallback_def settle_def cb)
qed

lemma hideDropdowns_desktop_effects:
  assumes "\<not> isMobileMode s" and "dropdownArea s \<noteq> None" and "backdrop s \<noteq> None"
    and "timersFresh s" and "currentOpenDropdown s = Some d"
  shows "\<not> throws (hideDropdowns s)
     \<and> dropdownArea (settle (hideDropdowns s)) = Some False
     \<and> backdrop (settle (hideDropdowns s)) = Some False
     \<and> list_all collapsed (menuButtons (settle (hideDropdowns s)))
     \<and> dropdowns (settle (hideDropdowns s)) = dropdowns s
     \<and> (list_all (\<lambda>t. t = Some ''0'') (dropdownLinks d s)
          \<longrightarrow> list_all (\<lambda>t. t = Some ''0'') (dropdownLinks d (settle (hideDropdowns s))))
     \<and> currentOpenDropdown (settle (hideDropdowns s)) = Some d
     \<and> findTimer (nextTimerId s) (settle (hideDropdowns s)) = Some (hideTimer s)
     \<and> activeDropdowns (dispatch (TimerFires (nextTimerId s)) (settle (hideDropdowns s))) = []
     \<and> list_all (\<lambda>p. list_all (\<lambda>t. t = Some ''-1'') (link_tabindex p))
          (dropdowns (dispatch (TimerFires (nextTimerId s)) (settle (hideDropdowns s))))
     \<and> currentOpenDropdown (dispatch (TimerFires (nextTimerId s)) (settle (hideDropdowns s))) = None"
proof -
  let ?s1 = "settle (hideDropdowns s)"
  have old: "\<forall>t \<in> set (timers s). timer_id t < nextTimerId s"
    using assms(4) by (simp add: timersFresh_def list_all_iff)
  have id: "timer_id (hideTimer s) = nextTimerId s" by (simp add: hideTimer_def)
  note h = hideDropdowns_desktop[OF assms(1-3)]
  have a: "\<not> throws (hideDropdowns s)" by (simp add: h throws_def)
  have b: "dropdownArea ?s1 = Some False" "backdrop ?s1 = Some False"
    "dropdowns ?s1 = dropdowns s" "currentOpenDropdown ?s1 = Some d"
    "timers ?s1 = timers s @ [hideTimer s]"
    by (simp_all add: h settle_def assms(5))
  have c: "list_all collapsed (menuButtons ?s1)"
    by (simp add: h settle_def list_all_collapseButton)
  have e: "dropdownLinks d ?s1 = dropdownLinks d s"
    by (simp add: dropdownLinks_def b)
  have f: "findTimer (nextTimerId s) ?s1 = Some (hideTimer s)"
    by (simp add: b findTimer_def find_fresh[OF old id])
  note fire = fire_hide_timer[OF assms(4) b(5)]
  show ?thesis
    using a b(1-4) c e f hideAnimationDone_closed by (simp add: fire)
qed

lemma hideDropdowns_mobile: "isMobileMode s \<Longrightarrow> hideDropdowns s = Inr s"
  by (simp add: hideDropdowns_def)

lemma firstIndex_cong_ids:
  "map dropdown_id xs = map dropdown_id ys \<Longrightarrow>
     firstIndex (\<lambda>d. dropdown_id d = e) xs = firstIndex (\<lambda>d. dropdown_id d = e) ys"
proof (induction xs arbitrary: ys)
  case Nil
  then show ?case by simp
next
  case (Cons x xs)
  then obtain y ys' where ys: "ys = y # ys'" by (cases ys) auto
  with Cons show ?case by auto
qed

lemma getDropdownById_cong:
  "map dropdown_id (dropdowns s1) = map dropdown_id (dropdowns s) \<Longrightarrow>
     getDropdownById e s1 = getDropdownById e s"
  unfolding getDropdownById_def by (rule firstIndex_cong_ids)

lemma timersFresh_clearTimeout: "timersFresh s \<Longrightarrow> timersFresh (clearTimeout h s)"
  by (auto simp: timersFresh_def clearTimeout_def list_all_iff split: option.splits)

lemma clearTimeout_frame:
  "innerWidth (clearTimeout h s) = innerWidth s"
  "dropdowns (clearTimeout h s) = dropdowns s"
  "currentOpenDropdown (clearTimeout h s) = currentOpenDropdown s"
  "dropdownArea (clearTimeout h s) = dropdownArea s"
  "backdrop (clearTimeout h s) = backdrop s"
  "nextTimerId (clearTimeout h s) = nextTimerId s"
  "dropdownTimeout (clearTimeout h s) = dropdownTimeout s"
  "TRANSITION_DURATION (clearTimeout h s) = TRANSITION_DURATION s"
  "menuButtons (clearTimeout h s) = menuButtons s"
  "lastFocusedElement (clearTimeout h s) = lastFocusedElement s"
  "mobileMenuOpen (clearTimeout h s) = mobileMenuOpen s"
  "activeElement (clearTimeout h s) = activeElement s"
  by (simp_all add: clearTimeout_def split: option.splits)

lemma isMobileMode_clearTimeout: "isMobileMode (clearTimeout h s) = isMobileMode s"
  by (simp add: isMobileMode_def clearTimeout_frame)

lemma getDropdownById_clearTimeout: "getDropdownById e (clearTimeout h s) = getDropdownById e s"
  by (simp add: getDropdownById_def clearTimeout_frame)

text \<open>What an opening show request leaves.\<close>

lemma ids_list_update:
  "dropdown_id y = dropdown_id (xs ! d) \<Longrightarrow> map dropdown_id (xs[d := y]) = map dropdown_id xs"
  by (induction xs arbitrary: d) (auto split: nat.splits)

lemma showDropdown_opens:
  assumes "\<not> isMobileMode s" and "dropdownArea s \<noteq> None" and "backdrop s \<noteq> None"
    and "getDropdownById (''dropdown-'' @ dropdownId) s = Some d"
    and "currentOpenDropdown s \<noteq> Some d"
  shows "\<exists>s1. showDropdown dropdownId (Some b) s = Inr s1
     \<and> currentOpenDropdown s1 = Some d \<and> lastFocusedElement s1 = Some b
     \<and> dropdown_active (dropdowns s1 ! d)
     \<and> list_all (\<lambda>t. t = Some ''0'') (dropdownLinks d s1)
     \<and> map dropdown_id (dropdowns s1) = map dropdown_id (dropdowns s)
     \<and> innerWidth s1 = innerWidth s \<and> dropdownArea s1 = Some True \<and> backdrop s1 = Some True
     \<and> timers s1 = timers (clearTimeout (dropdownTimeout s) s)
     \<and> nextTimerId s1 = nextTimerId s \<and> dropdownTimeout s1 = dropdownTimeout s
     \<and> TRANSITION_DURATION s1 = TRANSITION_DURATION s"
proof -
  have d: "d < length (dropdowns s)"
    using firstIndex_Some[of _ "dropdowns s" d] assms(4) by (simp add: getDropdownById_def)
  from assms(2) obtain a where a: "dropdownArea s = Some a" by auto
  from assms(3) obtain k where k: "backdrop s = Some k" by auto
  define s1 where "s1 = settle (showDropdown dropdownId (Some b) s)"
  note unf = showDropdown_def Let_def isMobileMode_clearTimeout getDropdownById_clearTimeout
    clearTimeout_frame assms(1,5) a k settle_def enableDropdownLinks_def
  have eq: "showDropdown dropdownId (Some b) s = Inr s1"
    unfolding s1_def using assms(4) by (simp add: unf)
  have f1: "currentOpenDropdown s1 = Some d" "lastFocusedElement s1 = Some b"
    "innerWidth s1 = innerWidth s" "dropdownArea s1 = Some True" "backdrop s1 = Some True"
    "timers s1 = timers (clearTimeout (dropdownTimeout s) s)"
    "nextTimerId s1 = nextTimerId s" "dropdownTimeout s1 = dropdownTimeout s"
    "TRANSITION_DURATION s1 = TRANSITION_DURATION s"
    unfolding s1_def using assms(4) by (simp_all add: unf)
  have ds: "dropdowns s1 =
      (map (\<lambda>x. x\<lparr>dropdown_active := False\<rparr>) (dropdowns s))
        [d := setLinks ''0'' ((dropdowns s ! d)\<lparr>dropdown_active := True\<rparr>)]"
    unfolding s1_def using d assms(4) by (simp add: unf)
  have f2: "dropdown_active (dropdowns s1 ! d)"
    using d by (simp add: ds setLinks_def)
  have f3: "list_all (\<lambda>t. t = Some ''0'') (dropdownLinks d s1)"
    using d by (simp add: dropdownLinks_def ds setLinks_def list_all_iff)
  have "map dropdown_id (dropdowns s1) = map dropdown_id (map (\<lambda>x. x\<lparr>dropdown_active := False\<rparr>) (dropdowns s))"
    unfolding ds using d by (intro ids_list_update) (simp add: setLinks_def)
  then have f4: "map dropdown_id (dropdowns s1) = map dropdown_id (dropdowns s)"
    by (simp add: comp_def)
  from eq f1 f2 f3 f4 show ?thesis by blast
qed

text \<open>
  C7. The claim: for every open dropdown, a hide request at once deactivates the area,
  the backdrop and the triggers, and when the animation duration has elapsed the panel
  is closed, its links unreachable and no dropdown recorded as open. At a desktop width
  the code does so (\<open>hideDropdowns_desktop_effects\<close>). The code fails the claim at a
  mobile width, where \<open>hideDropdowns\<close> returns at once: the guard that makes the
  clean-up of \<open>handleResize\<close> a no-op. On the page above, a click opens the first
  panel and the window is resized to 500. Before the resize settles, and after it, a
  hide request returns the state it was given: the area, the backdrop and the trigger
  stay active, no close timer is started, and the links of the panel stay reachable.
\<close>

theorem hide_request_ignored_at_mobile_width:
  "currentOpenDropdown (run [Click (MenuButton 0) True, Resize 500] loadedPage) = Some 0
   \<and> isMobileMode (run [Click (MenuButton 0) True, Resize 500] loadedPage)
   \<and> hideDropdowns (run [Click (MenuButton 0) True, Resize 500] loadedPage)
       = Inr (run [Click (MenuButton 0) True, Resize 500] loadedPage)
   \<and> dropdownArea (run [Click (MenuButton 0) True, Resize 500] loadedPage) = Some True
   \<and> backdrop (run [Click (MenuButton 0) True, Resize 500] loadedPage) = Some True
   \<and> map button_active (menuButtons (run [Click (MenuButton 0) True, Resize 500] loadedPage))
       = [True, False]
   \<and> closeTimers (run [Click (MenuButton 0) True, Resize 500] loadedPage) = []
   \<and> dropdownLinks 0 (run [Click (MenuButton 0) True, Resize 500] loadedPage)
       = [Some ''0'', Some ''0'']
   \<and> hideDropdowns (run [Click (MenuButton 0) True, Resize 500, TimerFires 1] loadedPage)
       = Inr (run [Click (MenuButton 0) True, Resize 500, TimerFires 1] loadedPage)
   \<and> currentOpenDropdown (run [Click (MenuButton 0) True, Resize 500, TimerFires 1] loadedPage) = Some 0
   \<and> timers (run [Click (MenuButton 0) True, Resize 500, TimerFires 1] loadedPage) = []"
  by code_simp

section \<open>Showing the open panel again\<close>

text \<open>
  C6, as amended. At a desktop width, with the dropdown area and the backdrop present,
  from the Closed state, for an id that names a panel: the first show request opens the
  panel; the second, with the same id and trigger, makes a hide request. It deactivates
  the area, the backdrop and every trigger at once and starts the timer of the closing
  animation, while the panel is still active and still recorded as open. When that
  timer fires the machine is in the Closed state again.
\<close>

theorem show_twice_returns_to_closed:
  assumes "\<not> isMobileMode s" and "dropdownArea s \<noteq> None" and "backdrop s \<noteq> None"
    and "timersFresh s" and "isClosed s"
    and "getDropdownById (''dropdown-'' @ dropdownId) s = Some d"
  shows "\<not> throws (showDropdown dropdownId (Some b) s)
     \<and> currentOpenDropdown (settle (showDropdown dropdownId (Some b) s)) = Some d
     \<and> dropdown_active (dropdowns (settle (showDropdown dropdownId (Some b) s)) ! d)
     \<and> \<not> throws (showDropdown dropdownId (Some b) (settle (showDropdown dropdownId (Some b) s)))
     \<and> dropdownArea (showTwice dropdownId b s) = Some False
     \<and> backdrop (showTwice dropdownId b s) = Some False
     \<and> list_all collapsed (menuButtons (showTwice dropdownId b s))
     \<and> currentOpenDropdown (showTwice dropdownId b s) = Some d
     \<and> dropdown_active (dropdowns (showTwice dropdownId b s) ! d)
     \<and> findTimer (nextTimerId s) (showTwice dropdownId b s) = Some (hideTimer s)
     \<and> isClosed (dispatch (TimerFires (nextTimerId s)) (showTwice dropdownId b s))
     \<and> dropdownArea (dispatch (TimerFires (nextTimerId s)) (showTwice dropdownId b s)) = Some False
     \<and> backdrop (dispatch (TimerFires (nextTimerId s)) (showTwice dropdownId b s)) = Some False
     \<and> list_all collapsed (menuButtons (dispatch (TimerFires (nextTimerId s)) (showTwice dropdownId b s)))"
proof -
  have "currentOpenDropdown s \<noteq> Some d" using assms(5) by (simp add: isClosed_def)
  from showDropdown_opens[OF assms(1-3) assms(6) this, of b]
  obtain s1 where s1: "showDropdown dropdownId (Some b) s = Inr s1"
    "currentOpenDropdown s1 = Some d" "dropdown_active (dropdowns s1 ! d)"
    "map dropdown_id (dropdowns s1) = map dropdown_id (dropdowns s)"
    "innerWidth s1 = innerWidth s" "dropdownArea s1 = Some True" "backdrop s1 = Some True"
    "timers s1 = timers (clearTimeout (dropdownTimeout s) s)"
    "nextTimerId s1 = nextTimerId s" "dropdownTimeout s1 = dropdownTimeout s"
    "TRANSITION_DURATION s1 = TRANSITION_DURATION s"
    by blast
  let ?c = "clearTimeout (dropdownTimeout s1) s1"
  have desk1: "\<not> isMobileMode s1" using assms(1) s1(5) by (simp add: isMobileMode_def)
  have get1: "getDropdownById (''dropdown-'' @ dropdownId) s1 = Some d"
    using getDropdownById_cong[OF s1(4)] assms(6) by simp
  have fresh1: "timersFresh s1"
    using timersFresh_clearTimeout[OF assms(4), of "dropdownTimeout s"] s1(8,9)
    by (simp add: timersFresh_def clearTimeout_frame)
  have freshc: "timersFresh ?c" by (rule timersFresh_clearTimeout[OF fresh1])
  have second: "showDropdown dropdownId (Some b) s1 = hideDropdowns ?c"
    using desk1 get1 s1(2)
    by (simp add: showDropdown_def Let_def getDropdownById_clearTimeout clearTimeout_frame
        isMobileMode_clearTimeout)
  have deskc: "\<not> isMobileMode ?c" using desk1 by (simp add: isMobileMode_clearTimeout)
  have prc: "dropdownArea ?c \<noteq> None" "backdrop ?c \<noteq> None"
    using s1(6,7) by (simp_all add: clearTimeout_frame)
  note h = hideDropdowns_desktop[OF deskc prc]
  define s2 where "s2 = settle (hideDropdowns ?c)"
  have ht: "hideTimer ?c = hideTimer s"
    by (simp add: hideTimer_def clearTimeout_frame s1)
  have nid: "nextTimerId ?c = nextTimerId s" by (simp add: clearTimeout_frame s1)
  have s2': "currentOpenDropdown s2 = currentOpenDropdown ?c" "dropdowns s2 = dropdowns ?c"
    unfolding s2_def by (simp_all add: h settle_def)
  have s2: "timers s2 = timers ?c @ [hideTimer ?c]"
    "dropdownArea s2 = Some False" "backdrop s2 = Some False"
    "menuButtons s2 = map collapseButton (menuButtons ?c)"
    "currentOpenDropdown s2 = Some d" "dropdown_active (dropdowns s2 ! d)"
    unfolding s2_def s2'[unfolded s2_def]
    by (simp_all add: h settle_def) (simp_all add: clearTimeout_frame s1)
  have btn: "list_all collapsed (menuButtons s2)"
    by (simp add: s2(4) list_all_collapseButton)
  have oldc: "\<forall>t \<in> set (timers ?c). timer_id t < nextTimerId ?c"
    using freshc by (simp add: timersFresh_def list_all_iff)
  have idc: "timer_id (hideTimer ?c) = nextTimerId ?c" by (simp add: hideTimer_def)
  have found: "findTimer (nextTimerId s) s2 = Some (hideTimer s)"
    using find_fresh[OF oldc idc] by (simp only: findTimer_def s2(1) nid ht)
  define s3 where "s3 = dispatch (TimerFires (nextTimerId s)) s2"
  have fire: "s3 = hideAnimationDone (s2\<lparr>timers := timers ?c\<rparr>)"
    unfolding s3_def using fire_hide_timer[OF freshc s2(1)] by (simp only: nid)
  have closed: "isClosed s3"
    unfolding fire using hideAnimationDone_closed by (simp add: isClosed_def)
  have rest: "dropdownArea s3 = Some False" "backdrop s3 = Some False"
    "list_all collapsed (menuButtons s3)"
    unfolding fire by (simp_all add: hideAnimationDone_def s2 list_all_collapseButton)
  have st1: "settle (showDropdown dropdownId (Some b) s) = s1" by (simp add: s1(1) settle_def)
  have st2: "showTwice dropdownId b s = s2" by (simp only: showTwice_def st1 second s2_def)
  have nt1: "\<not> throws (showDropdown dropdownId (Some b) s)" by (simp add: s1(1) throws_def)
  have nt2: "\<not> throws (showDropdown dropdownId (Some b) s1)" by (simp add: second h throws_def)
  show ?thesis
    unfolding st1 st2 s3_def[symmetric]
    using nt1 nt2 s1(2,3) s2(2,3,5,6) btn found closed rest by blast
qed

theorem show_twice_returns_to_closed_witness:
  "\<not> isMobileMode loadedPage \<and> timersFresh loadedPage \<and> isClosed loadedPage
   \<and> getDropdownById (''dropdown-'' @ ''products'') loadedPage = Some 0
   \<and> currentOpenDropdown (settle (showDropdown ''products'' (Some 0) loadedPage)) = Some 0
   \<and> dropdownArea (showTwice ''products'' 0 loadedPage) = Some False
   \<and> isClosed (dispatch (TimerFires (nextTimerId loadedPage)) (showTwice ''products'' 0 loadedPage))"
proof -
  have a: "\<not> isMobileMode loadedPage" by code_simp
  have b: "dropdownArea loadedPage \<noteq> None" "backdrop loadedPage \<noteq> None"
    by code_simp+
  have c: "timersFresh loadedPage" by code_simp
  have d: "isClosed loadedPage" by code_simp
  have e: "getDropdownById (''dropdown-'' @ ''products'') loadedPage = Some 0" by code_simp
  from show_twice_returns_to_closed[OF a b c d e, of 0] a c d e show ?thesis by blast
qed

text \<open>
  The claim as stated, that the second request returns the machine to Closed, fails
  for the state the second request leaves: on the page above the panel is then still
  active and still recorded as open.
\<close>

theorem show_twice_still_open_counterexample:
  "isClosed loadedPage
   \<and> \<not> isMobileMode loadedPage
   \<and> currentOpenDropdown (showTwice ''products'' 0 loadedPage) = Some 0
   \<and> activeDropdowns (showTwice ''products'' 0 loadedPage) = [0]
   \<and> \<not> isClosed (showTwice ''products'' 0 loadedPage)"
  by code_simp

section \<open>The Escape key\<close>

lemma closeMobileMenu_present:
  assumes "mobileNav s \<noteq> None" and "backdrop s \<noteq> None" and "hamburgerButton s \<noteq> None"
  shows "\<not> throws (closeMobileMenu s)
     \<and> \<not> mobileMenuOpen (settle (closeMobileMenu s))
     \<and> mobileNav (settle (closeMobileMenu s)) = Some False
     \<and> backdrop (settle (closeMobileMenu s)) = Some False
     \<and> bodyOverflow (settle (closeMobileMenu s)) = []
     \<and> activeElement (settle (closeMobileMenu s)) = HamburgerButton
     \<and> currentOpenDropdown (settle (closeMobileMenu s)) = currentOpenDropdown s
     \<and> dropdowns (settle (closeMobileMenu s)) = dropdowns s
     \<and> timers (settle (closeMobileMenu s)) = timers s"
  using assms
  by (auto simp: closeMobileMenu_def throws_def settle_def focus_def Let_def)

text \<open>
  What the Escape branch of the key handler does, with the mobile panel, the backdrop,
  the hamburger button and the dropdown area present. If the mobile panel is open, it
  does what \<open>closeMobileMenu\<close> does and nothing more. Otherwise, if a dropdown is
  open, it makes a hide request, moves the focus to the recorded trigger and does
  nothing more; the hide request has its effects at a desktop width only. The recorded
  trigger is the one given to the show request that opened the dropdown.
\<close>

lemma escape_key_effects:
  assumes "mobileNav s \<noteq> None" and "backdrop s \<noteq> None" and "hamburgerButton s \<noteq> None"
    and "dropdownArea s \<noteq> None" and "timersFresh s"
  shows "(mobileMenuOpen s \<longrightarrow>
            handleKeyboardNavigation ''Escape'' shiftKey s = closeMobileMenu s
          \<and> \<not> throws (closeMobileMenu s)
          \<and> \<not> mobileMenuOpen (dispatch (KeyDown ''Escape'' shiftKey) s)
          \<and> mobileNav (dispatch (KeyDown ''Escape'' shiftKey) s) = Some False
          \<and> currentOpenDropdown (dispatch (KeyDown ''Escape'' shiftKey) s) = currentOpenDropdown s
          \<and> dropdowns (dispatch (KeyDown ''Escape'' shiftKey) s) = dropdowns s
          \<and> timers (dispatch (KeyDown ''Escape'' shiftKey) s) = timers s)
     \<and> (\<not> mobileMenuOpen s \<and> currentOpenDropdown s = Some d \<and> \<not> isMobileMode s \<longrightarrow>
            handleKeyboardNavigation ''Escape'' shiftKey s
              = Inr (focusLastFocusedElement (settle (hideDropdowns s)))
          \<and> \<not> throws (hideDropdowns s)
          \<and> dropdownArea (dispatch (KeyDown ''Escape'' shiftKey) s) = Some False
          \<and> backdrop (dispatch (KeyDown ''Escape'' shiftKey) s) = Some False
          \<and> list_all collapsed (menuButtons (dispatch (KeyDown ''Escape'' shiftKey) s))
          \<and> findTimer (nextTimerId s) (dispatch (KeyDown ''Escape'' shiftKey) s) = Some (hideTimer s)
          \<and> (\<forall>b. lastFocusedElement s = Some b \<longrightarrow>
                activeElement (dispatch (KeyDown ''Escape'' shiftKey) s) = MenuButton b))
     \<and> (\<not> mobileMenuOpen s \<and> currentOpenDropdown s = Some d \<and> isMobileMode s \<longrightarrow>
            handleKeyboardNavigation ''Escape'' shiftKey s = Inr (focusLastFocusedElement s))
     \<and> (\<not> isMobileMode s \<and> getDropdownById (''dropdown-'' @ dropdownId) s = Some d
          \<and> currentOpenDropdown s \<noteq> Some d \<longrightarrow>
            currentOpenDropdown (settle (showDropdown dropdownId (Some b) s)) = Some d
          \<and> lastFocusedElement (settle (showDropdown dropdownId (Some b) s)) = Some b)"
proof -
  let ?after = "dispatch (KeyDown ''Escape'' shiftKey) s"
  have c1: "mobileMenuOpen s \<longrightarrow>
            handleKeyboardNavigation ''Escape'' shiftKey s = closeMobileMenu s
          \<and> \<not> throws (closeMobileMenu s)
          \<and> \<not> mobileMenuOpen ?after
          \<and> mobileNav ?after = Some False
          \<and> currentOpenDropdown ?after = currentOpenDropdown s
          \<and> dropdowns ?after = dropdowns s
          \<and> timers ?after = timers s"
  proof
    assume m: "mobileMenuOpen s"
    have k: "handleKeyboardNavigation ''Escape'' shiftKey s = closeMobileMenu s"
      using m by (simp add: handleKeyboardNavigation_def)
    have dsp: "?after = settle (closeMobileMenu s)"
      by (simp add: dispatch_def k)
    from closeMobileMenu_present[OF assms(1-3)] k
    show "handleKeyboardNavigation ''Escape'' shiftKey s = closeMobileMenu s
          \<and> \<not> throws (closeMobileMenu s)
          \<and> \<not> mobileMenuOpen ?after
          \<and> mobileNav ?after = Some False
          \<and> currentOpenDropdown ?after = currentOpenDropdown s
          \<and> dropdowns ?after = dropdowns s
          \<and> timers ?after = timers s"
      unfolding dsp by blast
  qed
  have c2: "\<not> mobileMenuOpen s \<and> currentOpenDropdown s = Some d \<and> \<not> isMobileMode s \<longrightarrow>
            handleKeyboardNavigation ''Escape'' shiftKey s
              = Inr (focusLastFocusedElement (settle (hideDropdowns s)))
          \<and> \<not> throws (hideDropdowns s)
          \<and> dropdownArea ?after = Some False
          \<and> backdrop ?after = Some False
          \<and> list_all collapsed (menuButtons ?after)
          \<and> findTimer (nextTimerId s) ?after = Some (hideTimer s)
          \<and> (\<forall>b. lastFocusedElement s = Some b \<longrightarrow> activeElement ?after = MenuButton b)"
  proof
    assume pre: "\<not> mobileMenuOpen s \<and> currentOpenDropdown s = Some d \<and> \<not> isMobileMode s"
    then have n: "\<not> mobileMenuOpen s" and o: "currentOpenDropdown s = Some d"
      and desk: "\<not> isMobileMode s" by simp_all
    note h = hideDropdowns_desktop_effects[OF desk assms(4) assms(2) assms(5) o]
    obtain s1 where s1: "hideDropdowns s = Inr s1"
      using h by (cases "hideDropdowns s") (auto simp: throws_def)
    have st: "settle (hideDropdowns s) = s1" by (simp add: s1 settle_def)
    have k: "handleKeyboardNavigation ''Escape'' shiftKey s = Inr (focusLastFocusedElement s1)"
      using n o by (simp add: handleKeyboardNavigation_def s1)
    have dsp: "?after = focusLastFocusedElement s1"
      by (simp add: dispatch_def k settle_def)
    have lf: "lastFocusedElement s1 = lastFocusedElement s"
      using s1 hideDropdowns_desktop[OF desk assms(4) assms(2)] by auto
    have fr: "dropdownArea (focusLastFocusedElement s1) = dropdownArea s1"
      "backdrop (focusLastFocusedElement s1) = backdrop s1"
      "menuButtons (focusLastFocusedElement s1) = menuButtons s1"
      "findTimer (nextTimerId s) (focusLastFocusedElement s1) = findTimer (nextTimerId s) s1"
      by (simp_all add: focusLastFocusedElement_def focus_def findTimer_def split: option.splits)
    have fo: "\<forall>b. lastFocusedElement s = Some b \<longrightarrow> activeElement (focusLastFocusedElement s1) = MenuButton b"
      by (simp add: focusLastFocusedElement_def focus_def lf)
    from h have h': "\<not> throws (hideDropdowns s)" "dropdownArea s1 = Some False"
      "backdrop s1 = Some False" "list_all collapsed (menuButtons s1)"
      "findTimer (nextTimerId s) s1 = Some (hideTimer s)"
      unfolding st by blast+
    show "handleKeyboardNavigation ''Escape'' shiftKey s
              = Inr (focusLastFocusedElement (settle (hideDropdowns s)))
          \<and> \<not> throws (hideDropdowns s)
          \<and> dropdownArea ?after = Some False
          \<and> backdrop ?after = Some False
          \<and> list_all collapsed (menuButtons ?after)
          \<and> findTimer (nextTimerId s) ?after = Some (hideTimer s)
          \<and> (\<forall>b. lastFocusedElement s = Some b \<longrightarrow> activeElement ?after = MenuButton b)"
      unfolding dsp st fr using k h' fo by blast
  qed
  have c3: "\<not> mobileMenuOpen s \<and> currentOpenDropdown s = Some d \<and> isMobileMode s \<longrightarrow>
            handleKeyboardNavigation ''Escape'' shiftKey s = Inr (focusLastFocusedElement s)"
    by (simp add: handleKeyboardNavigation_def hideDropdowns_mobile)
  have c4: "\<not> isMobileMode s \<and> getDropdownById (''dropdown-'' @ dropdownId) s = Some d
          \<and> currentOpenDropdown s \<noteq> Some d \<longrightarrow>
            currentOpenDropdown (settle (showDropdown dropdownId (Some b) s)) = Some d
          \<and> lastFocusedElement (settle (showDropdown dropdownId (Some b) s)) = Some b"
  proof
    assume pre: "\<not> isMobileMode s \<and> getDropdownById (''dropdown-'' @ dropdownId) s = Some d
          \<and> currentOpenDropdown s \<noteq> Some d"
    then have p: "\<not> isMobileMode s" "getDropdownById (''dropdown-'' @ dropdownId) s = Some d"
      "currentOpenDropdown s \<noteq> Some d" by blast+
    from showDropdown_opens[OF p(1) assms(4) assms(2) p(2,3), of b]
    show "currentOpenDropdown (settle (showDropdown dropdownId (Some b) s)) = Some d
          \<and> lastFocusedElement (settle (showDropdown dropdownId (Some b) s)) = Some b"
      by (auto simp: settle_def)
  qed
  show ?thesis by (intro conjI c1 c2 c3 c4)
qed

text \<open>
  C8. The claim: on an Escape keydown, if the mobile panel is open it is closed and
  handling stops; otherwise, if a dropdown is open, the dropdown is closed, the focus
  goes to the recorded trigger, and handling stops. The code does so for the mobile
  panel, and for a dropdown at a desktop width (\<open>escape_key_effects\<close>). The code
  fails the claim for a dropdown open at a mobile width: the Escape branch calls
  \<open>hideDropdowns\<close>, which returns at once there, the guard that makes the clean-up
  of \<open>handleResize\<close> a no-op. On the page above, a click opens the first panel and
  the window is resized to 500. Before the resize settles, and after it, Escape moves
  the focus to the trigger and leaves the panel active and recorded as open, the area
  active, and no close timer started.
\<close>

theorem escape_ignored_at_mobile_width:
  "\<not> mobileMenuOpen (run [Click (MenuButton 0) True, Resize 500] loadedPage)
   \<and> currentOpenDropdown (run [Click (MenuButton 0) True, Resize 500] loadedPage) = Some 0
   \<and> currentOpenDropdown
       (run [Click (MenuButton 0) True, Resize 500, KeyDown ''Escape'' False] loadedPage) = Some 0
   \<and> map dropdown_active (dropdowns
       (run [Click (MenuButton 0) True, Resize 500, KeyDown ''Escape'' False] loadedPage))
       = [True, False]
   \<and> dropdownArea
       (run [Click (MenuButton 0) True, Resize 500, KeyDown ''Escape'' False] loadedPage) = Some True
   \<and> closeTimers
       (run [Click (MenuButton 0) True, Resize 500, KeyDown ''Escape'' False] loadedPage) = []
   \<and> activeElement
       (run [Click (MenuButton 0) True, Resize 500, KeyDown ''Escape'' False] loadedPage) = MenuButton 0
   \<and> currentOpenDropdown
       (run [Click (MenuButton 0) True, Resize 500, TimerFires 1, KeyDown ''Escape'' False] loadedPage) = Some 0
   \<and> map dropdown_active (dropdowns
       (run [Click (MenuButton 0) True, Resize 500, TimerFires 1, KeyDown ''Escape'' False] loadedPage))
       = [True, False]
   \<and> timers
       (run [Click (MenuButton 0) True, Resize 500, TimerFires 1, KeyDown ''Escape'' False] loadedPage) = []"
  by code_simp

section \<open>The hamburger button\<close>

lemma settle_Inr: "settle (Inr s) = s"
  by (simp add: settle_def)

lemma settle_Inl: "settle (Inl (e, s)) = s"
  by (simp add: settle_def)

lemma mobileMenuOpen_setTimeout: "mobileMenuOpen (setTimeout f d s) = mobileMenuOpen s"
  by (simp add: setTimeout_def)

lemma mobileMenuOpen_debounce: "mobileMenuOpen (debounce f d s) = mobileMenuOpen s"
  by (simp add: debounce_def Let_def setTimeout_def clearTimeout_frame)

lemma mobileMenuOpen_hide: "mobileMenuOpen (settle (hideDropdowns s)) = mobileMenuOpen s"
  by (simp add: hideDropdowns_def Let_def settle_Inr settle_Inl mobileMenuOpen_setTimeout
      split: option.splits)

lemma mobileMenuOpen_show: "mobileMenuOpen (settle (showDropdown i b s)) = mobileMenuOpen s"
  by (simp add: showDropdown_def Let_def settle_Inr settle_Inl mobileMenuOpen_hide
      clearTimeout_frame enableDropdownLinks_def split: option.splits)

lemma mobileMenuOpen_toggle: "mobileMenuOpen (toggleMobileAccordion i s) = mobileMenuOpen s"
  by (simp add: toggleMobileAccordion_def Let_def split: option.splits)

lemma mobileMenuOpen_open:
  "mobileMenuOpen s \<Longrightarrow> mobileMenuOpen (settle (openMobileMenu s))"
  by (simp add: openMobileMenu_def Let_def settle_Inr settle_Inl mobileMenuOpen_setTimeout
      split: option.splits)

lemma settle_documentClickListener: "settle (documentClickListener inside s) = s"
  by (simp add: documentClickListener_def hideDropdowns_mobile settle_Inr settle_Inl)

lemma mobileMenuOpen_focusLast: "mobileMenuOpen (focusLastFocusedElement s) = mobileMenuOpen s"
  by (simp add: focusLastFocusedElement_def focus_def split: option.splits)

lemma mobileMenuOpen_tabBlock:
  "mobileMenuOpen (settle (keyboardTabBlock k shiftKey s)) = mobileMenuOpen s"
  by (simp add: keyboardTabBlock_def Let_def settle_Inr mobileMenuOpen_hide
      mobileMenuOpen_focusLast split: option.splits)

lemma mobileMenuOpen_mobileBlock:
  "mobileMenuOpen (settle (keyboardMobileBlock k s)) = mobileMenuOpen s"
  by (simp add: keyboardMobileBlock_def settle_Inr mobileMenuOpen_toggle split: option.splits)

lemma settle_bind:
  "settle (case r of Inl e \<Rightarrow> Inl e | Inr s1 \<Rightarrow> f s1)
     = (case r of Inl e \<Rightarrow> snd e | Inr s1 \<Rightarrow> settle (f s1))"
  by (simp add: settle_def split: sum.splits prod.splits)

lemma mobileMenuOpen_bind:
  assumes "mobileMenuOpen (settle r) = m" and "\<And>s1. mobileMenuOpen s1 = m \<Longrightarrow> mobileMenuOpen (settle (f s1)) = m"
  shows "mobileMenuOpen (settle (case r of Inl e \<Rightarrow> Inl e | Inr s1 \<Rightarrow> f s1)) = m"
  using assms by (cases r) (auto simp: settle_def)

lemma mobileMenuOpen_keyboard:
  assumes "k \<noteq> ''Escape''"
  shows "mobileMenuOpen (settle (handleKeyboardNavigation k shiftKey s)) = mobileMenuOpen s"
proof -
  have tab: "mobileMenuOpen (settle (case keyboardTabBlock k shiftKey s of
                   Inl e \<Rightarrow> Inl e
                 | Inr s1 \<Rightarrow> keyboardMobileBlock k s1)) = mobileMenuOpen s"
    by (rule mobileMenuOpen_bind) (simp_all add: mobileMenuOpen_tabBlock mobileMenuOpen_mobileBlock)
  have shw: "mobileMenuOpen (settle (case showDropdown i (Some b) s of
                        Inl e \<Rightarrow> Inl e
                      | Inr s1 \<Rightarrow> Inr (setTimeout FocusFirstLink (Finite 50) s1))) = mobileMenuOpen s" for i b
    by (rule mobileMenuOpen_bind) (simp_all add: mobileMenuOpen_show settle_Inr mobileMenuOpen_setTimeout)
  show ?thesis
    using assms
    by (simp add: handleKeyboardNavigation_def tab shw mobileMenuOpen_hide mobileMenuOpen_mobileBlock
        split: option.splits)
qed

lemma mobileMenuOpen_clickListener:
  assumes "mobileMenuOpen s" and "target \<noteq> MobileNavClose" and "target \<noteq> Backdrop"
  shows "mobileMenuOpen (settle (clickListener target s))"
  using assms
  by (cases target)
     (simp_all add: clickListener_def settle_Inr mobileMenuOpen_hide mobileMenuOpen_show
        mobileMenuOpen_toggle mobileMenuOpen_open)

lemma mobileMenuOpen_handleResize_mobile:
  "isMobileMode s \<Longrightarrow> mobileMenuOpen (settle (handleResize s)) = mobileMenuOpen s"
  by (simp add: handleResize_mobile settle_Inr)

lemma mobileMenuOpen_runCallback:
  assumes "mobileMenuOpen s" and "f \<noteq> DebouncedResize \<or> isMobileMode s"
  shows "mobileMenuOpen (settle (runCallback f s))"
  using assms
  by (cases f)
     (auto simp: runCallback_def settle_Inr settle_Inl mobileMenuOpen_hide mobileMenuOpen_show
        mobileMenuOpen_setTimeout hideAnimationDone_def focus_def
        mobileMenuOpen_handleResize_mobile split: option.splits)

text \<open>
  C9. In every state in which the mobile panel is open, a click on the hamburger button
  leaves it open; in the state an opening leaves, the click changes nothing but to
  start one more focus timer. An event after which the panel is no longer open is a
  click on the close control or on the backdrop, an Escape keydown, or the debounced
  resize handler running at a desktop width.
\<close>

theorem hamburger_click_only_opens:
  assumes "mobileMenuOpen s"
  shows "mobileMenuOpen (dispatch (Click HamburgerButton inside) s)
     \<and> (\<not> mobileMenuOpen (dispatch ev s) \<longrightarrow> closesMobileMenu s ev)
     \<and> (isMobileMode s \<and> mobileNav s = Some True \<and> backdrop s = Some True
          \<and> hamburgerButton s = Some \<lparr>hamburger_expanded = Some ''true''\<rparr>
          \<and> bodyOverflow s = ''hidden'' \<longrightarrow>
        dispatch (Click HamburgerButton inside) s = setTimeout FocusMobileNavClose (Finite 100) s)"
proof -
  have a: "mobileMenuOpen (dispatch (Click HamburgerButton inside) s)"
    using assms
    by (simp add: dispatch_def settle_documentClickListener clickListener_def settle_Inr
        mobileMenuOpen_open)
  have b: "\<not> mobileMenuOpen (dispatch ev s) \<longrightarrow> closesMobileMenu s ev"
  proof (cases ev)
    case (MouseEnter onWrapper closest)
    then show ?thesis
      using assms
      by (simp add: dispatch_def Let_def handleMouseEnter_def clearTimeout_frame
          mobileMenuOpen_debounce split: option.splits)
  next
    case MouseLeave
    then show ?thesis
      using assms by (simp add: dispatch_def handleMouseLeave_def mobileMenuOpen_debounce)
  next
    case (KeyDown k shiftKey)
    then show ?thesis
      using assms mobileMenuOpen_keyboard[of k shiftKey s]
      by (cases "k = ''Escape''") (simp_all add: dispatch_def closesMobileMenu_def)
  next
    case (Click target inside')
    then show ?thesis
      using assms mobileMenuOpen_clickListener[of s target]
      by (auto simp: dispatch_def closesMobileMenu_def settle_documentClickListener)
  next
    case (Resize w)
    then show ?thesis
      using assms by (simp add: dispatch_def mobileMenuOpen_debounce)
  next
    case (TimerFires h)
    show ?thesis
    proof (cases "findTimer h s")
      case None
      with TimerFires assms show ?thesis by (simp add: dispatch_def)
    next
      case (Some t)
      let ?s' = "s\<lparr>timers := filter (\<lambda>u. timer_id u \<noteq> h) (timers s)\<rparr>"
      have m: "mobileMenuOpen ?s'" using assms by simp
      have w: "isMobileMode ?s' = isMobileMode s" by (simp add: isMobileMode_def)
      from mobileMenuOpen_runCallback[OF m, of "timer_callback t"] w
      show ?thesis
        using TimerFires Some by (auto simp: dispatch_def closesMobileMenu_def)
    qed
  next
    case (FocusMoves el)
    then show ?thesis
      using assms by (simp add: dispatch_def focus_def)
  qed
  have c: "isMobileMode s \<and> mobileNav s = Some True \<and> backdrop s = Some True
          \<and> hamburgerButton s = Some \<lparr>hamburger_expanded = Some ''true''\<rparr>
          \<and> bodyOverflow s = ''hidden'' \<longrightarrow>
        dispatch (Click HamburgerButton inside) s = setTimeout FocusMobileNavClose (Finite 100) s"
  proof
    assume pre: "isMobileMode s \<and> mobileNav s = Some True \<and> backdrop s = Some True
          \<and> hamburgerButton s = Some \<lparr>hamburger_expanded = Some ''true''\<rparr>
          \<and> bodyOverflow s = ''hidden''"
    have same: "s\<lparr>mobileNav := Some True, backdrop := Some True,
              hamburgerButton := Some \<lparr>hamburger_expanded = Some ''true''\<rparr>,
              mobileMenuOpen := True, bodyOverflow := ''hidden''\<rparr> = s"
      using pre assms by (intro state.equality) simp_all
    have "openMobileMenu s = Inr (setTimeout FocusMobileNavClose (Finite 100) s)"
      using pre by (simp add: openMobileMenu_def Let_def same)
    then show "dispatch (Click HamburgerButton inside) s = setTimeout FocusMobileNavClose (Finite 100) s"
      using pre
      by (simp add: dispatch_def settle_documentClickListener clickListener_def settle_Inr)
  qed
  show ?thesis by (intro conjI a b c)
qed

theorem hamburger_click_only_opens_witness:
  "mobileMenuOpen (run [Resize 500, Click HamburgerButton False] loadedPage)
   \<and> mobileMenuOpen (run [Resize 500, Click HamburgerButton False, Click HamburgerButton False] loadedPage)
   \<and> \<not> mobileMenuOpen (run [Resize 500, Click HamburgerButton False, Click MobileNavClose False] loadedPage)
   \<and> closesMobileMenu (run [Resize 500, Click HamburgerButton False] loadedPage) (Click MobileNavClose False)
   \<and> bodyOverflow (run [Resize 500, Click HamburgerButton False] loadedPage) = ''hidden''
   \<and> dispatch (Click HamburgerButton False) (run [Resize 500, Click HamburgerButton False] loadedPage)
       = setTimeout FocusMobileNavClose (Finite 100) (run [Resize 500, Click HamburgerButton False] loadedPage)"
proof -
  let ?m = "run [Resize 500, Click HamburgerButton False] loadedPage"
  have m: "mobileMenuOpen ?m" by code_simp
  have c: "\<not> mobileMenuOpen (dispatch (Click MobileNavClose False) ?m)" by code_simp
  have o: "isMobileMode ?m" "mobileNav ?m = Some True" "backdrop ?m = Some True"
    "hamburgerButton ?m = Some \<lparr>hamburger_expanded = Some ''true''\<rparr>"
    "bodyOverflow ?m = ''hidden''" by code_simp+
  have r1: "run [Resize 500, Click HamburgerButton False, Click HamburgerButton False] loadedPage
      = dispatch (Click HamburgerButton False) ?m" by simp
  have r2: "run [Resize 500, Click HamburgerButton False, Click MobileNavClose False] loadedPage
      = dispatch (Click MobileNavClose False) ?m" by simp
  from hamburger_click_only_opens[OF m, of False "Click MobileNavClose False"] c o
  have "mobileMenuOpen (dispatch (Click HamburgerButton False) ?m)"
    "closesMobileMenu ?m (Click MobileNavClose False)"
    "dispatch (Click HamburgerButton False) ?m = setTimeout FocusMobileNavClose (Finite 100) ?m"
    by blast+
  then show ?thesis
    unfolding r1 r2 using m c o(5) by blast
qed

section \<open>Accordion sections\<close>

lemma dispatch_accordion_click:
  "dispatch (Click (AccordionButton i) inside) s = toggleMobileAccordion i s"
  by (simp add: dispatch_def clickListener_def settle_Inr settle_documentClickListener)

text \<open>
  C10. A click on an accordion trigger whose \<open>aria-controls\<close> names a content element
  flips the trigger's \<open>aria-expanded\<close> and sets the content's class \<open>active\<close> to the
  new expanded state, whatever the width: the click at any width \<open>w\<close> does what it
  does at the current one. The keyboard path is gated: with the trigger focused, Enter
  or Space changes nothing at a desktop width and toggles at a mobile width.
\<close>

theorem accordion_click_ignores_mode:
  assumes "i < length (mobileAccordionButtons s)"
    and "getContentById (aria_controls (mobileAccordionButtons s ! i)) s = Some c"
  shows "accordion_expanded (mobileAccordionButtons (dispatch (Click (AccordionButton i) inside) s) ! i)
           = Some (if accordion_expanded (mobileAccordionButtons s ! i) = Some ''true''
                   then ''false'' else ''true'')
     \<and> content_active (accordionContents (dispatch (Click (AccordionButton i) inside) s) ! c)
           = (accordion_expanded (mobileAccordionButtons s ! i) \<noteq> Some ''true'')
     \<and> dispatch (Click (AccordionButton i) inside) (s\<lparr>innerWidth := w\<rparr>)
           = (dispatch (Click (AccordionButton i) inside) s)\<lparr>innerWidth := w\<rparr>
     \<and> (\<not> isMobileMode s \<and> activeElement s = AccordionButton i \<and> isActivationKey k \<longrightarrow>
          dispatch (KeyDown k shiftKey) s = s)
     \<and> (isMobileMode s \<and> activeElement s = AccordionButton i \<and> isActivationKey k \<longrightarrow>
          dispatch (KeyDown k shiftKey) s = toggleMobileAccordion i s)"
proof -
  have c: "c < length (accordionContents s)"
    using assms(2) firstIndex_Some[of _ "accordionContents s" c]
    by (auto simp: getContentById_def split: option.splits if_splits)
  have g: "getContentById x (s\<lparr>innerWidth := w\<rparr>) = getContentById x s" for x
    by (simp add: getContentById_def split: option.splits)
  have a1: "accordion_expanded (mobileAccordionButtons (toggleMobileAccordion i s) ! i)
           = Some (if accordion_expanded (mobileAccordionButtons s ! i) = Some ''true''
                   then ''false'' else ''true'')"
    using assms by (simp add: toggleMobileAccordion_def Let_def)
  have a2: "content_active (accordionContents (toggleMobileAccordion i s) ! c)
           = (accordion_expanded (mobileAccordionButtons s ! i) \<noteq> Some ''true'')"
    using assms c by (simp add: toggleMobileAccordion_def Let_def)
  have a3: "toggleMobileAccordion i (s\<lparr>innerWidth := w\<rparr>) = (toggleMobileAccordion i s)\<lparr>innerWidth := w\<rparr>"
    by (simp add: toggleMobileAccordion_def Let_def g split: option.splits)
  have nk: "isActivationKey k \<Longrightarrow> k \<noteq> ''Escape'' \<and> k \<noteq> ''Tab''"
    by (auto simp: isActivationKey_def)
  have a4: "\<not> isMobileMode s \<and> activeElement s = AccordionButton i \<and> isActivationKey k \<longrightarrow>
          dispatch (KeyDown k shiftKey) s = s"
    using nk
    by (auto simp: dispatch_def handleKeyboardNavigation_def focusedMenuButton_def
        keyboardTabBlock_def keyboardMobileBlock_def settle_Inr split: option.splits)
  have a5: "isMobileMode s \<and> activeElement s = AccordionButton i \<and> isActivationKey k \<longrightarrow>
          dispatch (KeyDown k shiftKey) s = toggleMobileAccordion i s"
    using nk assms(1)
    by (auto simp: dispatch_def handleKeyboardNavigation_def
        keyboardMobileBlock_def focusedAccordionButton_def settle_Inr)
  show ?thesis
    unfolding dispatch_accordion_click by (intro conjI a1 a2 a3 a4 a5)
qed

theorem accordion_click_ignores_mode_witness:
  "\<not> isMobileMode loadedPage
   \<and> getContentById (aria_controls (mobileAccordionButtons loadedPage ! 0)) loadedPage = Some 0
   \<and> accordion_expanded (mobileAccordionButtons (dispatch (Click (AccordionButton 0) False) loadedPage) ! 0)
       = Some ''true''
   \<and> content_active (accordionContents (dispatch (Click (AccordionButton 0) False) loadedPage) ! 0)
   \<and> dispatch (KeyDown ''Enter'' False) (loadedPage\<lparr>activeElement := AccordionButton 0\<rparr>)
       = loadedPage\<lparr>activeElement := AccordionButton 0\<rparr>
   \<and> dispatch (KeyDown ''Enter'' False) (loadedPage\<lparr>activeElement := AccordionButton 0, innerWidth := 500\<rparr>)
       = toggleMobileAccordion 0 (loadedPage\<lparr>activeElement := AccordionButton 0, innerWidth := 500\<rparr>)"
proof -
  let ?f = "loadedPage\<lparr>activeElement := AccordionButton 0\<rparr>"
  let ?g = "loadedPage\<lparr>activeElement := AccordionButton 0, innerWidth := 500\<rparr>"
  have a: "0 < length (mobileAccordionButtons loadedPage)" by code_simp
  have b: "getContentById (aria_controls (mobileAccordionButtons loadedPage ! 0)) loadedPage = Some 0"
    by code_simp
  have e: "accordion_expanded (mobileAccordionButtons loadedPage ! 0) \<noteq> Some ''true''" by code_simp
  have af: "0 < length (mobileAccordionButtons ?f)" by code_simp
  have bf: "getContentById (aria_controls (mobileAccordionButtons ?f ! 0)) ?f = Some 0" by code_simp
  have ag: "0 < length (mobileAccordionButtons ?g)" by code_simp
  have bg: "getContentById (aria_controls (mobileAccordionButtons ?g ! 0)) ?g = Some 0" by code_simp
  have d: "\<not> isMobileMode loadedPage" "\<not> isMobileMode ?f" "activeElement ?f = AccordionButton 0"
    "isActivationKey ''Enter''" "isMobileMode ?g" "activeElement ?g = AccordionButton 0"
    by code_simp+
  from accordion_click_ignores_mode[OF a b, of False 0 "''Enter''" False] e
  have w1: "accordion_expanded (mobileAccordionButtons (dispatch (Click (AccordionButton 0) False) loadedPage) ! 0)
       = Some ''true''"
    "content_active (accordionContents (dispatch (Click (AccordionButton 0) False) loadedPage) ! 0)"
    by simp_all
  from accordion_click_ignores_mode[OF af bf, of False 0 "''Enter''" False] d
  have w2: "dispatch (KeyDown ''Enter'' False) ?f = ?f" by blast
  from accordion_click_ignores_mode[OF ag bg, of False 0 "''Enter''" False] d
  have w3: "dispatch (KeyDown ''Enter'' False) ?g = toggleMobileAccordion 0 ?g" by blast
  show ?thesis using d(1) b w1 w2 w3 by blast
qed

section \<open>Timers\<close>

lemma not_both: "isCloseCallback f \<Longrightarrow> \<not> isDebounceCallback f"
  by (auto simp: isCloseCallback_def isDebounceCallback_def)

lemma tinv_filter: "tinv ts n db dd \<Longrightarrow> tinv (filter (\<lambda>t. timer_id t \<noteq> h) ts) n db dd"
  by (auto simp: tinv_def list_all_iff distinct_map_filter)

lemma tinv_other:
  assumes "tinv ts n db dd" and "\<not> isDebounceCallback f"
  shows "tinv (ts @ [\<lparr>timer_id = n, timer_delay = d, timer_callback = f\<rparr>]) (Suc n) db dd"
  using assms by (auto simp: tinv_def list_all_iff handleIssued_def split: option.splits)

lemma tinv_close:
  assumes "tinv ts n db dd" and "isCloseCallback f"
  shows "tinv (ts @ [\<lparr>timer_id = n, timer_delay = d, timer_callback = f\<rparr>]) (Suc n) db (Some n)"
  using assms not_both[OF assms(2)]
  by (auto simp: tinv_def list_all_iff handleIssued_def split: option.splits)

lemma tinv_debounce:
  assumes "tinv ts n db dd" and "isDebounceCallback f"
  shows "tinv ((case db of None \<Rightarrow> ts | Some h \<Rightarrow> filter (\<lambda>t. timer_id t \<noteq> h) ts)
               @ [\<lparr>timer_id = n, timer_delay = d, timer_callback = f\<rparr>]) (Suc n) (Some n) dd"
  using assms not_both[of f]
  by (cases db)
     (auto simp: tinv_def list_all_iff handleIssued_def distinct_map_filter split: option.splits)


lemma timerInv_view: "timerView s' = timerView s \<Longrightarrow> timerInv s' = timerInv s"
  by (simp add: timerView_def timerInv_def)

lemma timerInv_clearTimeout: "timerInv s \<Longrightarrow> timerInv (clearTimeout h s)"
  by (cases h) (simp_all add: timerInv_def clearTimeout_def tinv_filter)

lemma timerInv_fired:
  "timerInv s \<Longrightarrow> timerInv (s\<lparr>timers := filter (\<lambda>u. timer_id u \<noteq> h) (timers s)\<rparr>)"
  by (simp add: timerInv_def tinv_filter)

lemma timerInv_setTimeout:
  "timerInv s \<Longrightarrow> \<not> isDebounceCallback f \<Longrightarrow> timerInv (setTimeout f d s)"
  by (simp add: timerInv_def setTimeout_def tinv_other)

lemma timerInv_setTimeout_close:
  "timerInv s \<Longrightarrow> isCloseCallback f \<Longrightarrow>
     timerInv ((setTimeout f d s)\<lparr>dropdownTimeout := Some (nextTimerId s)\<rparr>)"
  by (simp add: timerInv_def setTimeout_def tinv_close)

lemma timerInv_debounce:
  assumes "timerInv s" and "isDebounceCallback f"
  shows "timerInv (debounce f d s)"
proof (cases "debounceTimeout s")
  case None
  with tinv_debounce[OF assms(1)[unfolded timerInv_def] assms(2), of d] show ?thesis
    by (simp add: timerInv_def debounce_def Let_def setTimeout_def clearTimeout_def)
next
  case (Some h)
  with tinv_debounce[OF assms(1)[unfolded timerInv_def] assms(2), of d] show ?thesis
    by (simp add: timerInv_def debounce_def Let_def setTimeout_def clearTimeout_def)
qed

lemma timerView_hide:
  "timerView (settle (hideDropdowns s)) = timerView s
   \<or> timerView (settle (hideDropdowns s))
       = timerView ((setTimeout HideAnimationDone (TRANSITION_DURATION s) s)\<lparr>dropdownTimeout := Some (nextTimerId s)\<rparr>)"
  by (simp add: hideDropdowns_def Let_def settle_Inr settle_Inl timerView_def setTimeout_def
      split: option.splits)

lemma timerInv_hide: "timerInv s \<Longrightarrow> timerInv (settle (hideDropdowns s))"
  using timerView_hide[of s] timerInv_setTimeout_close[of s HideAnimationDone "TRANSITION_DURATION s"]
  by (auto simp: isCloseCallback_def dest: timerInv_view)

lemma timerView_show:
  "timerView (settle (showDropdown i b s)) = timerView s
   \<or> timerView (settle (showDropdown i b s)) = timerView (clearTimeout (dropdownTimeout s) s)
   \<or> timerView (settle (showDropdown i b s))
       = timerView (settle (hideDropdowns (clearTimeout (dropdownTimeout s) s)))"
  by (simp add: showDropdown_def Let_def settle_Inr settle_Inl timerView_def enableDropdownLinks_def
      split: option.splits)

lemma timerInv_show: "timerInv s \<Longrightarrow> timerInv (settle (showDropdown i b s))"
  using timerView_show[of i b s] timerInv_hide[OF timerInv_clearTimeout, of s "dropdownTimeout s"]
    timerInv_clearTimeout[of s "dropdownTimeout s"]
  by (auto dest: timerInv_view)

lemma timerView_open:
  "timerView (settle (openMobileMenu s)) = timerView s
   \<or> timerView (settle (openMobileMenu s)) = timerView (setTimeout FocusMobileNavClose (Finite 100) s)"
  by (simp add: openMobileMenu_def Let_def settle_Inr settle_Inl timerView_def setTimeout_def
      split: option.splits)

lemma timerInv_open: "timerInv s \<Longrightarrow> timerInv (settle (openMobileMenu s))"
  using timerView_open[of s] timerInv_setTimeout[of s FocusMobileNavClose "Finite 100"]
  by (auto simp: isDebounceCallback_def dest: timerInv_view)

lemma timerView_close: "timerView (settle (closeMobileMenu s)) = timerView s"
  by (simp add: closeMobileMenu_def Let_def settle_Inr settle_Inl timerView_def focus_def
      split: option.splits)

lemma timerInv_close: "timerInv s \<Longrightarrow> timerInv (settle (closeMobileMenu s))"
  using timerView_close[of s] by (auto dest: timerInv_view)

lemma timerView_toggle: "timerView (toggleMobileAccordion i s) = timerView s"
  by (simp add: toggleMobileAccordion_def Let_def timerView_def split: option.splits)

lemma timerInv_toggle: "timerInv s \<Longrightarrow> timerInv (toggleMobileAccordion i s)"
  using timerView_toggle[of i s] by (auto dest: timerInv_view)

lemma timerInv_focus: "timerInv s \<Longrightarrow> timerInv (focus el s)"
  by (simp add: timerInv_def focus_def)

lemma timerInv_focusLast: "timerInv s \<Longrightarrow> timerInv (focusLastFocusedElement s)"
  by (simp add: focusLastFocusedElement_def timerInv_focus split: option.splits)

lemma timerInv_bind:
  assumes "timerInv (settle r)" and "\<And>s1. timerInv s1 \<Longrightarrow> timerInv (settle (f s1))"
  shows "timerInv (settle (case r of Inl e \<Rightarrow> Inl e | Inr s1 \<Rightarrow> f s1))"
  using assms by (cases r) (auto simp: settle_def)

lemma timerInv_tabBlock: "timerInv s \<Longrightarrow> timerInv (settle (keyboardTabBlock k shiftKey s))"
  by (simp add: keyboardTabBlock_def Let_def settle_Inr timerInv_hide timerInv_focusLast
      split: option.splits)

lemma timerInv_mobileBlock: "timerInv s \<Longrightarrow> timerInv (settle (keyboardMobileBlock k s))"
  by (simp add: keyboardMobileBlock_def settle_Inr timerInv_toggle split: option.splits)

lemma timerInv_keyboard:
  assumes "timerInv s"
  shows "timerInv (settle (handleKeyboardNavigation k shiftKey s))"
proof -
  have esc: "timerInv (settle (case hideDropdowns s of
              Inl e \<Rightarrow> Inl e
            | Inr s1 \<Rightarrow> Inr (focusLastFocusedElement s1)))"
    by (rule timerInv_bind) (simp_all add: assms timerInv_hide settle_Inr timerInv_focusLast)
  have tab: "timerInv (settle (case keyboardTabBlock k shiftKey s of
                   Inl e \<Rightarrow> Inl e
                 | Inr s1 \<Rightarrow> keyboardMobileBlock k s1))"
    by (rule timerInv_bind) (simp_all add: assms timerInv_tabBlock timerInv_mobileBlock)
  have shw: "timerInv (settle (case showDropdown i (Some b) s of
                        Inl e \<Rightarrow> Inl e
                      | Inr s1 \<Rightarrow> Inr (setTimeout FocusFirstLink (Finite 50) s1)))" for i b
    by (rule timerInv_bind)
       (simp_all add: assms timerInv_show settle_Inr timerInv_setTimeout isDebounceCallback_def)
  show ?thesis
    using assms
    by (simp add: handleKeyboardNavigation_def esc tab shw timerInv_hide timerInv_close
        timerInv_mobileBlock split: option.splits)
qed

lemma timerInv_clickListener: "timerInv s \<Longrightarrow> timerInv (settle (clickListener target s))"
  by (cases target)
     (simp_all add: clickListener_def settle_Inr timerInv_hide timerInv_show timerInv_toggle
        timerInv_open timerInv_close)

lemma timerInv_handleResize: "timerInv s \<Longrightarrow> timerInv (settle (handleResize s))"
  by (simp add: handleResize_def settle_Inr timerInv_hide timerInv_close)

lemma timerInv_hideAnimationDone: "timerInv s \<Longrightarrow> timerInv (hideAnimationDone s)"
  by (simp add: timerInv_def hideAnimationDone_def)

lemma timerInv_runCallback: "timerInv s \<Longrightarrow> timerInv (settle (runCallback f s))"
  by (cases f)
     (simp_all add: runCallback_def settle_Inr settle_Inl timerInv_hide timerInv_show
        timerInv_setTimeout_close timerInv_hideAnimationDone timerInv_focus timerInv_handleResize
        isCloseCallback_def CLOSE_DELAY_def split: option.splits)

lemma timerInv_dispatch:
  assumes "timerInv s"
  shows "timerInv (dispatch ev s)"
proof (cases ev)
  case (MouseEnter onWrapper closest)
  have "timerInv (handleMouseEnter closest s)"
    using assms
    by (simp add: handleMouseEnter_def timerInv_debounce isDebounceCallback_def split: option.splits)
  then show ?thesis
    using assms MouseEnter by (simp add: dispatch_def Let_def timerInv_clearTimeout)
next
  case MouseLeave
  then show ?thesis
    using assms
    by (simp add: dispatch_def handleMouseLeave_def timerInv_debounce isDebounceCallback_def)
next
  case (KeyDown k shiftKey)
  then show ?thesis
    using assms by (simp add: dispatch_def timerInv_keyboard)
next
  case (Click target inside)
  then show ?thesis
    using assms by (simp add: dispatch_def settle_documentClickListener timerInv_clickListener)
next
  case (Resize w)
  have "timerInv (s\<lparr>innerWidth := w\<rparr>)" using assms by (simp add: timerInv_def)
  then show ?thesis
    using Resize by (simp add: dispatch_def timerInv_debounce isDebounceCallback_def)
next
  case (TimerFires h)
  then show ?thesis
    using assms
    by (simp add: dispatch_def timerInv_runCallback timerInv_fired split: option.splits)
next
  case (FocusMoves el)
  then show ?thesis
    using assms by (simp add: dispatch_def timerInv_focus)
qed

lemma timerInv_run: "timerInv s \<Longrightarrow> timerInv (run evs s)"
  by (induction evs arbitrary: s) (simp_all add: timerInv_dispatch)


lemma filter_same_id_le_one:
  "distinct (map timer_id ts) \<Longrightarrow> \<forall>t \<in> set ts. P t \<longrightarrow> timer_id t = h \<Longrightarrow>
     length (filter P ts) \<le> 1"
proof (induction ts)
  case Nil
  then show ?case by simp
next
  case (Cons x xs)
  show ?case
  proof (cases "P x")
    case True
    have "filter P xs = []"
    proof (rule ccontr)
      assume "filter P xs \<noteq> []"
      then obtain y where y: "y \<in> set xs" "P y"
        by (auto simp: filter_empty_conv)
      with Cons.prems True have eq: "timer_id y = timer_id x" by simp
      have "timer_id y \<in> set (map timer_id xs)" using y(1) by simp
      moreover have "timer_id x \<notin> set (map timer_id xs)" using Cons.prems(1) by simp
      ultimately show False using eq by simp
    qed
    with True show ?thesis by simp
  next
    case False
    with Cons show ?thesis by simp
  qed
qed

lemma debounceTimers_le_one:
  assumes "timerInv s"
  shows "length (debounceTimers s) \<le> 1"
proof (cases "debounceTimeout s")
  case None
  with assms have "debounceTimers s = []"
    by (auto simp: timerInv_def tinv_def debounceTimers_def list_all_iff filter_empty_conv)
  then show ?thesis by simp
next
  case (Some h)
  with assms have "distinct (map timer_id (timers s))"
    and "\<forall>t \<in> set (timers s). isDebounceCallback (timer_callback t) \<longrightarrow> timer_id t = h"
    by (auto simp: timerInv_def tinv_def list_all_iff)
  then show ?thesis
    unfolding debounceTimers_def by (rule filter_same_id_le_one)
qed

lemma debounce_replaces:
  assumes "timerInv s" and "isDebounceCallback f"
  shows "debounceTimers (debounce f d s)
           = [\<lparr>timer_id = nextTimerId s, timer_delay = d, timer_callback = f\<rparr>]
     \<and> closeTimers (debounce f d s) = closeTimers s"
proof (cases "debounceTimeout s")
  case None
  have nc: "\<not> isCloseCallback f" using assms(2) not_both by blast
  from None assms have "filter (\<lambda>t. isDebounceCallback (timer_callback t)) (timers s) = []"
    by (auto simp: timerInv_def tinv_def list_all_iff filter_empty_conv)
  with None assms(2) nc show ?thesis
    by (auto simp: debounceTimers_def closeTimers_def debounce_def Let_def setTimeout_def
        clearTimeout_def)
next
  case (Some h)
  from assms(1) Some have iff: "\<forall>t \<in> set (timers s). isDebounceCallback (timer_callback t) = (timer_id t = h)"
    by (auto simp: timerInv_def tinv_def list_all_iff)
  have gone: "filter (\<lambda>t. isDebounceCallback (timer_callback t))
                (filter (\<lambda>t. timer_id t \<noteq> h) (timers s)) = []"
    using iff by (auto simp: filter_empty_conv)
  have kept: "filter (\<lambda>t. isCloseCallback (timer_callback t))
                (filter (\<lambda>t. timer_id t \<noteq> h) (timers s))
              = filter (\<lambda>t. isCloseCallback (timer_callback t)) (timers s)"
    using iff not_both by (auto intro!: filter_cong)
  have nc: "\<not> isCloseCallback f" using assms(2) not_both by blast
  from Some assms(2) nc gone kept show ?thesis
    by (simp add: debounceTimers_def closeTimers_def debounce_def Let_def setTimeout_def
        clearTimeout_def)
qed

lemma clear_close_keeps_debounce:
  assumes "timerInv s"
  shows "debounceTimers (clearTimeout (dropdownTimeout s) s) = debounceTimers s"
proof (cases "dropdownTimeout s")
  case None
  then show ?thesis by (simp add: clearTimeout_def debounceTimers_def)
next
  case (Some h)
  with assms have "\<forall>t \<in> set (timers s). timer_id t = h \<longrightarrow> isCloseCallback (timer_callback t)"
    by (auto simp: timerInv_def tinv_def list_all_iff)
  then have "filter (\<lambda>t. isDebounceCallback (timer_callback t))
                (filter (\<lambda>t. timer_id t \<noteq> h) (timers s))
              = filter (\<lambda>t. isDebounceCallback (timer_callback t)) (timers s)"
    using not_both by (auto intro!: filter_cong)
  with Some show ?thesis by (simp add: clearTimeout_def debounceTimers_def)
qed

lemma hide_cancels_nothing:
  "timers (settle (hideDropdowns s)) = timers s
   \<or> timers (settle (hideDropdowns s)) = timers s @ [hideTimer s]"
  by (simp add: hideDropdowns_def Let_def settle_Inr settle_Inl setTimeout_def hideTimer_def
      split: option.splits)

text \<open>
  What holds of the timers after every sequence of events, from a state with a
  well-formed timer state: at most one timer started through \<open>debounce\<close> is pending;
  starting a debounce cancels the pending debounce timer and leaves the new one alone
  pending, and it cancels no close timer; clearing \<open>dropdownTimeout\<close> cancels no
  debounce timer; and a hide request cancels no timer, it only adds its own.
\<close>

lemma timer_handles_after_run:
  assumes "timerInv s"
  shows "length (debounceTimers (run evs s)) \<le> 1
     \<and> (isDebounceCallback f \<longrightarrow>
          debounceTimers (debounce f d (run evs s))
            = [\<lparr>timer_id = nextTimerId (run evs s), timer_delay = d, timer_callback = f\<rparr>]
        \<and> closeTimers (debounce f d (run evs s)) = closeTimers (run evs s))
     \<and> debounceTimers (clearTimeout (dropdownTimeout (run evs s)) (run evs s))
         = debounceTimers (run evs s)
     \<and> (timers (settle (hideDropdowns (run evs s))) = timers (run evs s)
        \<or> timers (settle (hideDropdowns (run evs s))) = timers (run evs s) @ [hideTimer (run evs s)])"
proof -
  have inv: "timerInv (run evs s)" by (rule timerInv_run[OF assms])
  show ?thesis
    using debounceTimers_le_one[OF inv] debounce_replaces[OF inv, of f d]
      clear_close_keeps_debounce[OF inv] hide_cancels_nothing[of "run evs s"]
    by blast
qed

text \<open>
  C4. The claim: each timer category, hover debounce, resize debounce and dropdown close
  delay, holds at most one live timer; starting a timer in a category first cancels the
  outstanding one of that category; and timers of different categories do not cancel
  each other. The code fails it twice. \<open>debounce\<close> keeps its handle in one variable
  for the hover and the resize callers alike, so a hover cancels a pending resize: at a
  mobile width the mobile panel is opened, the window is resized to 1200, and the
  pointer enters a trigger before the resize settles; the resize handler never runs,
  and when the hover timer fires the dropdown is open beside the still open mobile
  panel. And \<open>hideDropdowns\<close> starts its timer without clearing the one pending, as
  \<open>debounce\<close> does for its own: Escape pressed twice on an open dropdown leaves two
  close timers pending, the show request of a click on the second trigger clears only
  the later one, and when the earlier one fires it strips the panel just opened while
  the area, the backdrop and the trigger stay active.
\<close>

theorem timer_categories_interfere:
  "map timer_callback (timers (run [Resize 1000] loadedPage)) = [DebouncedResize]
   \<and> map timer_callback (timers (run [Resize 1000, MouseEnter False (Some 0)] loadedPage))
       = [DebouncedShow ''products'' 0]
   \<and> map timer_callback (debounceTimers
        (run [Resize 500, TimerFires 1, Click HamburgerButton False, Resize 1200] loadedPage))
       = [DebouncedResize]
   \<and> map timer_callback (debounceTimers
        (run [Resize 500, TimerFires 1, Click HamburgerButton False, Resize 1200,
              MouseEnter False (Some 0)] loadedPage))
       = [DebouncedShow ''products'' 0]
   \<and> mobileMenuOpen
        (run [Resize 500, TimerFires 1, Click HamburgerButton False, Resize 1200,
              MouseEnter False (Some 0), TimerFires 4] loadedPage)
   \<and> currentOpenDropdown
        (run [Resize 500, TimerFires 1, Click HamburgerButton False, Resize 1200,
              MouseEnter False (Some 0), TimerFires 4] loadedPage) = Some 0
   \<and> debounceTimers
        (run [Resize 500, TimerFires 1, Click HamburgerButton False, Resize 1200,
              MouseEnter False (Some 0), TimerFires 4] loadedPage) = []
   \<and> map timer_callback (closeTimers
        (run [Click (MenuButton 0) True, KeyDown ''Escape'' False, KeyDown ''Escape'' False] loadedPage))
       = [HideAnimationDone, HideAnimationDone]
   \<and> map timer_id (closeTimers
        (run [Click (MenuButton 0) True, KeyDown ''Escape'' False, KeyDown ''Escape'' False,
              Click (MenuButton 1) True] loadedPage))
       = [1]
   \<and> currentOpenDropdown
        (run [Click (MenuButton 0) True, KeyDown ''Escape'' False, KeyDown ''Escape'' False,
              Click (MenuButton 1) True] loadedPage) = Some 1
   \<and> currentOpenDropdown
        (run [Click (MenuButton 0) True, KeyDown ''Escape'' False, KeyDown ''Escape'' False,
              Click (MenuButton 1) True, TimerFires 1] loadedPage) = None
   \<and> activeDropdowns
        (run [Click (MenuButton 0) True, KeyDown ''Escape'' False, KeyDown ''Escape'' False,
              Click (MenuButton 1) True, TimerFires 1] loadedPage) = []
   \<and> dropdownArea
        (run [Click (MenuButton 0) True, KeyDown ''Escape'' False, KeyDown ''Escape'' False,
              Click (MenuButton 1) True, TimerFires 1] loadedPage) = Some True
   \<and> map button_active (menuButtons
        (run [Click (MenuButton 0) True, KeyDown ''Escape'' False, KeyDown ''Escape'' False,
              Click (MenuButton 1) True, TimerFires 1] loadedPage)) = [False, True]"
  by code_simp

end
